theory Spec2Isabelle
  imports
    Complex_Main
    "HOL-Library.Char_ord"
    "HOL-Library.List_Lexorder"
    "HOL-Library.Log_Nat"
    "HOL-Library.Signed_Division"
begin

section \<open>The keyring accessor of go-axle (keyring.go)\<close>

text \<open>
  The development embeds \<^verbatim>\<open>keyring.go\<close>: the \<^verbatim>\<open>KeyRing\<close> struct, its constructor,
  \<^verbatim>\<open>Save\<close>, \<^verbatim>\<open>GetKeyRing\<close>, \<^verbatim>\<open>populateKeyRingFromResponse\<close>, \<^verbatim>\<open>DeleteKeyRing\<close>, the
  link, unlink, list and statistics calls, and \<^verbatim>\<open>KeyRings\<close>.

  Conventions of the embedding.
  \<^item> A Go \<^verbatim>\<open>string\<close> is a byte sequence, here a \<open>string\<close> (a list of 8-bit characters).
  \<^item> A \<^verbatim>\<open>float64\<close> is a finite value, \<^verbatim>\<open>NaN\<close> or an infinity. Finite values are
    given by the real number they denote; the negative zero is identified with zero.
  \<^item> Byte slices that carry JSON are given by the document they spell: \<open>Doc v\<close> for the
    bytes of the JSON value \<open>v\<close> (members of an object in the order written, duplicate
    names possible, a number by the exact value of its literal, whatever its size),
    \<open>NotJSON\<close> for bytes that are not a JSON text. Reading a document into untyped
    values converts every number to \<^verbatim>\<open>float64\<close> with \<^verbatim>\<open>strconv.ParseFloat\<close>: it
    rounds to the nearest \<^verbatim>\<open>float64\<close>, and fails for a literal outside the range.
    \<^verbatim>\<open>json.Marshal\<close> writes a finite \<^verbatim>\<open>float64\<close> in a decimal form that reads back
    as the same \<^verbatim>\<open>float64\<close>, so a number that was written by \<^verbatim>\<open>json.Marshal\<close> is
    read as it stands.
  \<^item> The functions of \<^verbatim>\<open>encoding/json\<close>, \<^verbatim>\<open>net/url\<close> and \<^verbatim>\<open>fmt\<close> that the file calls
    are standard library; they are written out below for the types the file uses them at.
  \<^item> \<^verbatim>\<open>doHttpRequest\<close>, \<^verbatim>\<open>doStatsRequest\<close>, \<^verbatim>\<open>doKeysRequest\<close>, the \<^verbatim>\<open>Key\<close> type with
    its decoder, \<^verbatim>\<open>VERSION_ENDPOINT\<close> and \<^verbatim>\<open>Granularity\<close> live in other files of the
    package; every function that uses one of them takes it as a parameter.
  \<^item> A method that writes through its receiver returns the receiver's new contents
    next to its result.
\<close>

subsection \<open>Data\<close>

datatype float64 = Finite real | NaN | PosInf | NegInf

fun isFinite :: "float64 \<Rightarrow> bool" where
  "isFinite (Finite r) = True"
| "isFinite NaN = False"
| "isFinite PosInf = False"
| "isFinite NegInf = False"

record KeyRing =
  Identifier :: string
  CreatedAt :: float64
  UpdatedAt :: float64
  axleAddress :: string
  createOnSave :: bool

text \<open>The zero value of the struct, as \<^verbatim>\<open>KeyRing{}\<close> or \<^verbatim>\<open>new(KeyRing)\<close> gives it.\<close>

definition zeroKeyRing :: KeyRing where
  "zeroKeyRing =
     \<lparr>Identifier = [], CreatedAt = Finite 0, UpdatedAt = Finite 0,
      axleAddress = [], createOnSave = False\<rparr>"

datatype json =
    JNull
  | JBool bool
  | JNumber real
  | JString string
  | JArray "json list"
  | JObject "(string \<times> json) list"

datatype body = NotJSON | Doc json

text \<open>Errors of \<^verbatim>\<open>encoding/json\<close>: the JSON kind met and the Go type it was read into.\<close>

datatype json_error =
    SyntaxError
  | UnmarshalTypeError string string
  | UnsupportedValueError float64

text \<open>One constructor for each \<^verbatim>\<open>fmt.Errorf\<close> of the file, with its arguments.\<close>

datatype error =
    TransportError string
  | UnableToMarshalKeyRing json_error
  | UpdateNotSupported
  | UnableToUnmarshalResponse json_error
  | MissingExpectedKey string
  | KeyDidNotContainMap string
  | UnableToDecodeKeyRing json_error
  | UnableToUnmarshalResponseFrom string json_error
  | MissingResponseFrom string
  | UnableToExtractResponseObjectFrom string
  | DeleteFailedAt string

text \<open>A call either returns or stops the program with a run-time panic.\<close>

datatype 'a outcome = Returns 'a | Panics

type_synonym transport = "string \<Rightarrow> string \<Rightarrow> body option \<Rightarrow> error + body"

subsection \<open>\<^verbatim>\<open>net/url\<close> and \<^verbatim>\<open>fmt\<close>\<close>

definition isAlnum :: "char \<Rightarrow> bool" where
  "isAlnum c \<longleftrightarrow>
     (CHR ''a'' \<le> c \<and> c \<le> CHR ''z'') \<or> (CHR ''A'' \<le> c \<and> c \<le> CHR ''Z'') \<or>
     (CHR ''0'' \<le> c \<and> c \<le> CHR ''9'')"

text \<open>\<^verbatim>\<open>shouldEscape(c, encodeQueryComponent)\<close>: only the unreserved bytes are kept.\<close>

definition shouldEscape :: "char \<Rightarrow> bool" where
  "shouldEscape c \<longleftrightarrow>
     \<not> (isAlnum c \<or> c = CHR ''-'' \<or> c = CHR ''_'' \<or> c = CHR ''.'' \<or> c = CHR ''~'')"

definition upperhex :: string where
  "upperhex = ''0123456789ABCDEF''"

fun QueryEscape :: "string \<Rightarrow> string" where
  "QueryEscape [] = []"
| "QueryEscape (c # s) =
     (if c = CHR '' '' then CHR ''+'' # QueryEscape s
      else if shouldEscape c then
        CHR ''%'' # upperhex ! (of_char c div 16) # upperhex ! (of_char c mod 16) # QueryEscape s
      else c # QueryEscape s)"

text \<open>The verb \<^verbatim>\<open>%d\<close> of \<^verbatim>\<open>fmt.Sprintf\<close> on an integer.\<close>

fun digits :: "nat \<Rightarrow> string" where
  "digits n =
     (if n < 10 then [char_of (48 + n)]
      else digits (n div 10) @ [char_of (48 + n mod 10)])"

declare digits.simps [simp del]

definition fmt_d :: "int \<Rightarrow> string" where
  "fmt_d i = (if i < 0 then CHR ''-'' # digits (nat (- i)) else digits (nat i))"

subsection \<open>\<^verbatim>\<open>strconv.ParseFloat\<close> at 64 bits\<close>

text \<open>
  The exponent \<open>e\<close> of a real \<open>x \<noteq> 0\<close>, with \<open>2\<^sup>e \<le> \<bar>x\<bar> < 2\<^sup>e\<^sup>+\<^sup>1\<close>: the number of
  binary digits of the integer part less one, or for \<open>\<bar>x\<bar> < 1\<close> the exponent of the least
  power of two that \<open>1 / \<bar>x\<bar>\<close> does not exceed, negated.
\<close>

definition exponent :: "real \<Rightarrow> int" where
  "exponent x =
     (if 1 \<le> \<bar>x\<bar> then bitlen \<lfloor>\<bar>x\<bar>\<rfloor> - 1 else - bitlen (\<lceil>1 / \<bar>x\<bar>\<rceil> - 1))"

text \<open>Rounding to the nearest integer, a tie to the even one.\<close>

definition roundHalfEven :: "real \<Rightarrow> int" where
  "roundHalfEven y =
     (if y - of_int \<lfloor>y\<rfloor> < 1 / 2 then \<lfloor>y\<rfloor>
      else if 1 / 2 < y - of_int \<lfloor>y\<rfloor> then \<lfloor>y\<rfloor> + 1
      else if even \<lfloor>y\<rfloor> then \<lfloor>y\<rfloor> else \<lfloor>y\<rfloor> + 1)"

text \<open>
  The nearest number with a significand of 53 bits and an exponent of at least
  \<open>- 1022\<close> (below that the numbers are subnormal and keep the spacing \<open>2\<^bsup>-1074\<^esup>\<close>): \<open>x\<close>
  is rounded to a multiple of the spacing of its binade.
\<close>

definition nearestFloat64 :: "real \<Rightarrow> real" where
  "nearestFloat64 x =
     (if x = 0 then 0
      else of_int (roundHalfEven (x / 2 powi (max (exponent x) (- 1022) - 52)))
             * 2 powi (max (exponent x) (- 1022) - 52))"

text \<open>
  \<^verbatim>\<open>strconv.ParseFloat(s, 64)\<close> on the literal of value \<open>x\<close>: the nearest \<^verbatim>\<open>float64\<close>,
  or \<open>None\<close> for the range error when the rounded value is \<open>2\<^bsup>1024\<^esup>\<close> or beyond.
\<close>

definition ParseFloat :: "real \<Rightarrow> real option" where
  "ParseFloat x =
     (if 2 ^ 1024 \<le> \<bar>nearestFloat64 x\<bar> then None else Some (nearestFloat64 x))"

subsection \<open>\<^verbatim>\<open>encoding/json\<close> on untyped values\<close>

text \<open>
  A \<^verbatim>\<open>map[string]interface{}\<close> is an association list with distinct names, or \<open>None\<close>
  for the nil map. Reading an object into a map keeps, of several members with one name,
  the last.
\<close>

type_synonym gomap = "(string \<times> json) list option"

fun objectMap :: "(string \<times> json) list \<Rightarrow> (string \<times> json) list" where
  "objectMap [] = []"
| "objectMap ((k, v) # kvs) =
     (if k \<in> fst ` set kvs then objectMap kvs else (k, v) # objectMap kvs)"

fun kindOf :: "json \<Rightarrow> string" where
  "kindOf JNull = ''null''"
| "kindOf (JBool b) = ''bool''"
| "kindOf (JNumber r) = ''number''"
| "kindOf (JString s) = ''string''"
| "kindOf (JArray vs) = ''array''"
| "kindOf (JObject kvs) = ''object''"

text \<open>
  Reading a value into \<^verbatim>\<open>interface{}\<close>: every number, at any depth and also in a
  member that a later member of the same name replaces, goes through
  \<^verbatim>\<open>strconv.ParseFloat\<close>; the result is \<open>None\<close> when one of them is out of range.
\<close>

fun decodeValue :: "json \<Rightarrow> json option" where
  "decodeValue (JNumber r) = map_option JNumber (ParseFloat r)"
| "decodeValue (JArray vs) = map_option JArray (those (map decodeValue vs))"
| "decodeValue (JObject kvs) =
     map_option JObject (those (map (\<lambda>(k, v). map_option (Pair k) (decodeValue v)) kvs))"
| "decodeValue v = Some v"

definition decodeMembers :: "(string \<times> json) list \<Rightarrow> (string \<times> json) list option" where
  "decodeMembers kvs = those (map (\<lambda>(k, v). map_option (Pair k) (decodeValue v)) kvs)"

text \<open>
  \<^verbatim>\<open>json.Unmarshal(body, &m)\<close> for a map \<open>m\<close> that is empty before the call: \<^verbatim>\<open>null\<close>
  stores the nil map, an object its members, every other value is a type error. An
  object with a number out of range is a type error too (\<^verbatim>\<open>cannot unmarshal number
  ... into Go value of type float64\<close>).
\<close>

fun Unmarshal_map :: "body \<Rightarrow> json_error + gomap" where
  "Unmarshal_map NotJSON = Inl SyntaxError"
| "Unmarshal_map (Doc JNull) = Inr None"
| "Unmarshal_map (Doc (JObject kvs)) =
     (case decodeMembers kvs of
        None \<Rightarrow> Inl (UnmarshalTypeError ''number'' ''float64'')
      | Some members \<Rightarrow> Inr (Some (objectMap members)))"
| "Unmarshal_map (Doc v) = Inl (UnmarshalTypeError (kindOf v) ''map[string]interface {}'')"

text \<open>The index expression \<^verbatim>\<open>m[key]\<close> with its \<^verbatim>\<open>exists\<close> flag; the nil map has no key.\<close>

definition index :: "gomap \<Rightarrow> string \<Rightarrow> json option" where
  "index m key = (case m of None \<Rightarrow> None | Some kvs \<Rightarrow> map_of kvs key)"

text \<open>
  \<^verbatim>\<open>json.Marshal\<close> of a map writes \<^verbatim>\<open>null\<close> for the nil map and the members sorted by
  name otherwise; of an untyped value it writes the value, an object through its map.
  Values that were read from JSON always encode.
\<close>

definition Marshal_map :: "gomap \<Rightarrow> json_error + body" where
  "Marshal_map m =
     (case m of None \<Rightarrow> Inr (Doc JNull) | Some kvs \<Rightarrow> Inr (Doc (JObject (sort_key fst kvs))))"

fun Marshal_value :: "json \<Rightarrow> json_error + body" where
  "Marshal_value (JObject kvs) = Marshal_map (Some (objectMap kvs))"
| "Marshal_value v = Inr (Doc v)"

subsection \<open>\<^verbatim>\<open>encoding/json\<close> on the \<^verbatim>\<open>KeyRing\<close> struct\<close>

text \<open>
  The struct tags leave two JSON fields: \<^verbatim>\<open>createdAt\<close> and \<^verbatim>\<open>updatedAt\<close>, both
  \<^verbatim>\<open>omitempty\<close>. \<^verbatim>\<open>Identifier\<close> is tagged \<^verbatim>\<open>json:"-"\<close>, \<^verbatim>\<open>axleAddress\<close> and
  \<^verbatim>\<open>createOnSave\<close> are unexported: none of the three is written or read.
\<close>

fun encodeFloat64 :: "string \<Rightarrow> float64 \<Rightarrow> json_error + (string \<times> json) list" where
  "encodeFloat64 name (Finite r) = Inr (if r = 0 then [] else [(name, JNumber r)])"
| "encodeFloat64 name f = Inl (UnsupportedValueError f)"

definition Marshal_KeyRing :: "KeyRing \<Rightarrow> json_error + body" where
  "Marshal_KeyRing k =
     (case encodeFloat64 ''createdAt'' (CreatedAt k) of
        Inl e \<Rightarrow> Inl e
      | Inr c \<Rightarrow>
          (case encodeFloat64 ''updatedAt'' (UpdatedAt k) of
             Inl e \<Rightarrow> Inl e
           | Inr u \<Rightarrow> Inr (Doc (JObject (c @ u)))))"

text \<open>
  A member name selects a field when it equals the field's name up to the case of
  letters. (The decoder folds Unicode letters; the two names hold no \<^verbatim>\<open>k\<close> and no
  \<^verbatim>\<open>s\<close>, the only ASCII letters that a letter outside ASCII folds to.)
\<close>

definition foldByte :: "char \<Rightarrow> char" where
  "foldByte c =
     (if CHR ''A'' \<le> c \<and> c \<le> CHR ''Z'' then char_of (of_char c + (32::nat)) else c)"

definition equalFold :: "string \<Rightarrow> string \<Rightarrow> bool" where
  "equalFold s t \<longleftrightarrow> map foldByte s = map foldByte t"

text \<open>
  Storing a JSON value into a \<^verbatim>\<open>float64\<close> field: a number is stored, \<^verbatim>\<open>null\<close> is
  ignored, any other value is a type error that leaves the field as it is. The file
  decodes into a \<^verbatim>\<open>KeyRing\<close> only what \<^verbatim>\<open>json.Marshal\<close> has just written, so
  the number is a \<^verbatim>\<open>float64\<close> in its round-trip form and is stored as it stands.
\<close>

fun storeFloat64 :: "json \<Rightarrow> float64 \<Rightarrow> float64 \<times> json_error option" where
  "storeFloat64 (JNumber r) old = (Finite r, None)"
| "storeFloat64 JNull old = (old, None)"
| "storeFloat64 v old = (old, Some (UnmarshalTypeError (kindOf v) ''float64''))"

text \<open>The decoder keeps the first error and goes on with the next member.\<close>

fun saveError :: "json_error option \<Rightarrow> json_error option \<Rightarrow> json_error option" where
  "saveError (Some e) e' = Some e"
| "saveError None e' = e'"

definition decodeMember ::
  "KeyRing \<times> json_error option \<Rightarrow> string \<times> json \<Rightarrow> KeyRing \<times> json_error option" where
  "decodeMember st kv =
     (let k = fst st; saved = snd st; name = fst kv; v = snd kv in
      if equalFold name ''createdAt'' then
        (k\<lparr>CreatedAt := fst (storeFloat64 v (CreatedAt k))\<rparr>,
         saveError saved (snd (storeFloat64 v (CreatedAt k))))
      else if equalFold name ''updatedAt'' then
        (k\<lparr>UpdatedAt := fst (storeFloat64 v (UpdatedAt k))\<rparr>,
         saveError saved (snd (storeFloat64 v (UpdatedAt k))))
      else (k, saved))"

text \<open>\<^verbatim>\<open>json.Unmarshal(data, p)\<close> for \<open>p\<close> a non-nil \<^verbatim>\<open>*KeyRing\<close>.\<close>

fun Unmarshal_KeyRing :: "body \<Rightarrow> KeyRing \<Rightarrow> KeyRing \<times> json_error option" where
  "Unmarshal_KeyRing NotJSON k = (k, Some SyntaxError)"
| "Unmarshal_KeyRing (Doc JNull) k = (k, None)"
| "Unmarshal_KeyRing (Doc (JObject kvs)) k = foldl decodeMember (k, None) kvs"
| "Unmarshal_KeyRing (Doc v) k = (k, Some (UnmarshalTypeError (kindOf v) ''goaxle.KeyRing''))"

text \<open>
  \<^verbatim>\<open>json.Unmarshal(data, pp)\<close> for \<open>pp\<close> a \<^verbatim>\<open>**KeyRing\<close> whose pointer is not nil. On
  \<^verbatim>\<open>null\<close> the decoder sets the pointer \<^verbatim>\<open>*pp\<close> to nil and does not touch the struct;
  the flag in the middle of the result says that this happened.
\<close>

fun Unmarshal_KeyRing_ptr :: "body \<Rightarrow> KeyRing \<Rightarrow> KeyRing \<times> bool \<times> json_error option" where
  "Unmarshal_KeyRing_ptr (Doc JNull) k = (k, True, None)"
| "Unmarshal_KeyRing_ptr data k =
     (fst (Unmarshal_KeyRing data k), False, snd (Unmarshal_KeyRing data k))"

subsection \<open>Constructor, \<^verbatim>\<open>Save\<close>, \<^verbatim>\<open>GetKeyRing\<close>\<close>

definition NewKeyRing :: "string \<Rightarrow> string \<Rightarrow> KeyRing" where
  "NewKeyRing address identifier =
     zeroKeyRing\<lparr>Identifier := identifier, axleAddress := address, createOnSave := True\<rparr>"

text \<open>The loop of \<^verbatim>\<open>populateKeyRingFromResponse\<close> that walks \<^verbatim>\<open>detailsLocation\<close>.\<close>

fun descend :: "gomap \<Rightarrow> string list \<Rightarrow> error + gomap" where
  "descend response [] = Inr response"
| "descend response (key # keys) =
     (case index response key of
        None \<Rightarrow> Inl (MissingExpectedKey key)
      | Some (JObject kvs) \<Rightarrow> descend (Some (objectMap kvs)) keys
      | Some v \<Rightarrow> Inl (KeyDidNotContainMap key))"

text \<open>
  The result is the struct that \<^verbatim>\<open>*keyRing\<close> pointed to at the call, after the call;
  whether \<^verbatim>\<open>*keyRing\<close> has been set to nil; and the error returned.
\<close>

definition populateKeyRingFromResponse ::
  "KeyRing \<Rightarrow> body \<Rightarrow> string list \<Rightarrow> KeyRing \<times> bool \<times> error option" where
  "populateKeyRingFromResponse keyRing body detailsLocation =
     (case Unmarshal_map body of
        Inl e \<Rightarrow> (keyRing, False, Some (UnableToUnmarshalResponse e))
      | Inr response \<Rightarrow>
          (case descend response detailsLocation of
             Inl e \<Rightarrow> (keyRing, False, Some e)
           | Inr response' \<Rightarrow>
               (case Marshal_map response' of
                  Inl e \<Rightarrow> (keyRing, False, Some (UnableToDecodeKeyRing e))
                | Inr jsonvalue \<Rightarrow>
                    (case Unmarshal_KeyRing_ptr jsonvalue keyRing of
                       (keyRing', nil, Some e) \<Rightarrow> (keyRing', nil, Some (UnableToDecodeKeyRing e))
                     | (keyRing', nil, None) \<Rightarrow> (keyRing', nil, None)))))"

definition Save_reqAddress :: "string \<Rightarrow> KeyRing \<Rightarrow> string" where
  "Save_reqAddress VERSION_ENDPOINT this =
     axleAddress this @ VERSION_ENDPOINT @ ''keyring/'' @ QueryEscape (Identifier this)"

text \<open>
  \<open>now\<close> is \<^verbatim>\<open>time.Now().UnixNano()\<close>. The quotient by \<^verbatim>\<open>1000 * 1000\<close> truncates
  towards zero and is below \<open>2\<^sup>5\<^sup>3\<close> for every \<^verbatim>\<open>int64\<close>, so it converts exactly.
\<close>

definition Save :: "transport \<Rightarrow> string \<Rightarrow> int \<Rightarrow> KeyRing \<Rightarrow> KeyRing \<times> error option" where
  "Save doHttpRequest VERSION_ENDPOINT now this0 =
     (let reqAddress = Save_reqAddress VERSION_ENDPOINT this0;
          this = this0\<lparr>UpdatedAt := Finite (of_int (now sdiv (1000 * 1000)))\<rparr>
      in case Marshal_KeyRing this of
           Inl e \<Rightarrow> (this, Some (UnableToMarshalKeyRing e))
         | Inr marshalled \<Rightarrow>
             if \<not> createOnSave this then (this, Some UpdateNotSupported)
             else
               (case doHttpRequest ''POST'' reqAddress (Some marshalled) of
                  Inl e \<Rightarrow> (this, Some e)
                | Inr body \<Rightarrow>
                    (case (if \<not> createOnSave this
                           then populateKeyRingFromResponse this body [''results'', ''new'']
                           else populateKeyRingFromResponse this body [''results'']) of
                       (this', nil, Some e) \<Rightarrow> (this', Some e)
                     | (this', nil, None) \<Rightarrow> (this'\<lparr>createOnSave := False\<rparr>, None))))"

definition GetKeyRing_reqAddress :: "string \<Rightarrow> string \<Rightarrow> string \<Rightarrow> string" where
  "GetKeyRing_reqAddress VERSION_ENDPOINT address identifier =
     address @ VERSION_ENDPOINT @ ''keyring/'' @ QueryEscape identifier"

definition GetKeyRing :: "transport \<Rightarrow> string \<Rightarrow> string \<Rightarrow> string \<Rightarrow> error + KeyRing" where
  "GetKeyRing doHttpRequest VERSION_ENDPOINT address identifier =
     (let reqAddress = GetKeyRing_reqAddress VERSION_ENDPOINT address identifier in
      case doHttpRequest ''GET'' reqAddress None of
        Inl e \<Rightarrow> Inl e
      | Inr body \<Rightarrow>
          (case populateKeyRingFromResponse (NewKeyRing address identifier) body [''results''] of
             (keyRing, nil, Some e) \<Rightarrow> Inl e
           | (keyRing, nil, None) \<Rightarrow> Inr (keyRing\<lparr>createOnSave := False\<rparr>)))"

subsection \<open>\<^verbatim>\<open>DeleteKeyRing\<close>\<close>

definition DeleteKeyRing_reqAddress :: "string \<Rightarrow> string \<Rightarrow> string \<Rightarrow> string" where
  "DeleteKeyRing_reqAddress VERSION_ENDPOINT address identifier =
     address @ VERSION_ENDPOINT @ ''keyring/'' @ QueryEscape identifier"

text \<open>The result is the error returned; \<open>None\<close> is Go's \<^verbatim>\<open>nil\<close>.\<close>

definition DeleteKeyRing :: "transport \<Rightarrow> string \<Rightarrow> string \<Rightarrow> string \<Rightarrow> error option" where
  "DeleteKeyRing doHttpRequest VERSION_ENDPOINT address identifier =
     (let reqAddress = DeleteKeyRing_reqAddress VERSION_ENDPOINT address identifier in
      case doHttpRequest ''DELETE'' reqAddress None of
        Inl e \<Rightarrow> Some e
      | Inr body \<Rightarrow>
          (case Unmarshal_map body of
             Inl e \<Rightarrow> Some (UnableToUnmarshalResponseFrom reqAddress e)
           | Inr responseMap \<Rightarrow>
               (case index responseMap ''results'' of
                  None \<Rightarrow> Some (MissingResponseFrom reqAddress)
                | Some (JBool succeeded) \<Rightarrow>
                    if \<not> succeeded then Some (DeleteFailedAt reqAddress) else None
                | Some v \<Rightarrow> Some (UnableToExtractResponseObjectFrom reqAddress))))"

subsection \<open>Linking, unlinking and listing keys\<close>

text \<open>
  \<^verbatim>\<open>NewKey\<close>, \<^verbatim>\<open>populateKeyFromResponse\<close> and the \<^verbatim>\<open>createOnSave\<close> field of \<^verbatim>\<open>Key\<close> are
  declared elsewhere in the package: \<open>NewKey\<close>, \<open>populateKey\<close> and \<open>markSaved\<close> (the
  assignment \<^verbatim>\<open>key.createOnSave = false\<close>) are parameters, as is \<open>doKeysRequest\<close>.
\<close>

definition KeyRingLinkKey_reqAddress :: "string \<Rightarrow> string \<Rightarrow> string \<Rightarrow> string \<Rightarrow> string" where
  "KeyRingLinkKey_reqAddress VERSION_ENDPOINT address keyRingIdentifier keyIdentifier =
     address @ VERSION_ENDPOINT @ ''keyring/'' @ QueryEscape keyRingIdentifier
       @ ''/linkkey/'' @ QueryEscape keyIdentifier"

definition KeyRingLinkKey ::
  "transport \<Rightarrow> (string \<Rightarrow> string \<Rightarrow> 'key) \<Rightarrow> ('key \<Rightarrow> body \<Rightarrow> string list \<Rightarrow> 'key \<times> error option)
     \<Rightarrow> ('key \<Rightarrow> 'key) \<Rightarrow> string \<Rightarrow> string \<Rightarrow> string \<Rightarrow> string \<Rightarrow> error + 'key" where
  "KeyRingLinkKey doHttpRequest NewKey populateKey markSaved VERSION_ENDPOINT address
       keyRingIdentifier keyIdentifier =
     (let reqAddress =
            KeyRingLinkKey_reqAddress VERSION_ENDPOINT address keyRingIdentifier keyIdentifier in
      case doHttpRequest ''PUT'' reqAddress (Some (Doc (JObject []))) of
        Inl e \<Rightarrow> Inl e
      | Inr body \<Rightarrow>
          (case populateKey (NewKey address keyIdentifier) body [''results''] of
             (key, Some e) \<Rightarrow> Inl e
           | (key, None) \<Rightarrow> Inr (markSaved key)))"

definition LinkKey ::
  "transport \<Rightarrow> (string \<Rightarrow> string \<Rightarrow> 'key) \<Rightarrow> ('key \<Rightarrow> body \<Rightarrow> string list \<Rightarrow> 'key \<times> error option)
     \<Rightarrow> ('key \<Rightarrow> 'key) \<Rightarrow> string \<Rightarrow> KeyRing \<Rightarrow> string \<Rightarrow> error + 'key" where
  "LinkKey doHttpRequest NewKey populateKey markSaved VERSION_ENDPOINT this keyIdentifier =
     KeyRingLinkKey doHttpRequest NewKey populateKey markSaved VERSION_ENDPOINT
       (axleAddress this) (Identifier this) keyIdentifier"

definition KeyRingUnlinkKey_reqAddress :: "string \<Rightarrow> string \<Rightarrow> string \<Rightarrow> string \<Rightarrow> string" where
  "KeyRingUnlinkKey_reqAddress VERSION_ENDPOINT address keyRingIdentifier keyIdentifier =
     address @ VERSION_ENDPOINT @ ''keyring/'' @ QueryEscape keyRingIdentifier
       @ ''/unlinkkey/'' @ QueryEscape keyIdentifier"

definition KeyRingUnlinkKey ::
  "transport \<Rightarrow> (string \<Rightarrow> string \<Rightarrow> 'key) \<Rightarrow> ('key \<Rightarrow> body \<Rightarrow> string list \<Rightarrow> 'key \<times> error option)
     \<Rightarrow> ('key \<Rightarrow> 'key) \<Rightarrow> string \<Rightarrow> string \<Rightarrow> string \<Rightarrow> string \<Rightarrow> error + 'key" where
  "KeyRingUnlinkKey doHttpRequest NewKey populateKey markSaved VERSION_ENDPOINT address
       keyRingIdentifier keyIdentifier =
     (let reqAddress =
            KeyRingUnlinkKey_reqAddress VERSION_ENDPOINT address keyRingIdentifier keyIdentifier in
      case doHttpRequest ''PUT'' reqAddress (Some (Doc (JObject []))) of
        Inl e \<Rightarrow> Inl e
      | Inr body \<Rightarrow>
          (case populateKey (NewKey address keyIdentifier) body [''results''] of
             (key, Some e) \<Rightarrow> Inl e
           | (key, None) \<Rightarrow> Inr (markSaved key)))"

definition UnlinkKey ::
  "transport \<Rightarrow> (string \<Rightarrow> string \<Rightarrow> 'key) \<Rightarrow> ('key \<Rightarrow> body \<Rightarrow> string list \<Rightarrow> 'key \<times> error option)
     \<Rightarrow> ('key \<Rightarrow> 'key) \<Rightarrow> string \<Rightarrow> KeyRing \<Rightarrow> string \<Rightarrow> error + 'key" where
  "UnlinkKey doHttpRequest NewKey populateKey markSaved VERSION_ENDPOINT this keyIdentifier =
     KeyRingUnlinkKey doHttpRequest NewKey populateKey markSaved VERSION_ENDPOINT
       (axleAddress this) (Identifier this) keyIdentifier"

definition KeyRingKeys_reqAddress :: "string \<Rightarrow> string \<Rightarrow> string \<Rightarrow> int \<Rightarrow> int \<Rightarrow> string" where
  "KeyRingKeys_reqAddress VERSION_ENDPOINT address identifier from to =
     address @ VERSION_ENDPOINT @ ''keyring/'' @ QueryEscape identifier
       @ ''/keys?resolve=true&from='' @ fmt_d from @ ''&to='' @ fmt_d to"

definition KeyRingKeys ::
  "(string \<Rightarrow> string \<Rightarrow> 'keys) \<Rightarrow> string \<Rightarrow> string \<Rightarrow> string \<Rightarrow> int \<Rightarrow> int \<Rightarrow> 'keys" where
  "KeyRingKeys doKeysRequest VERSION_ENDPOINT address identifier from to =
     doKeysRequest (KeyRingKeys_reqAddress VERSION_ENDPOINT address identifier from to) address"

definition Keys :: "(string \<Rightarrow> string \<Rightarrow> 'keys) \<Rightarrow> string \<Rightarrow> KeyRing \<Rightarrow> int \<Rightarrow> int \<Rightarrow> 'keys" where
  "Keys doKeysRequest VERSION_ENDPOINT this from to =
     KeyRingKeys doKeysRequest VERSION_ENDPOINT (axleAddress this) (Identifier this) from to"

subsection \<open>Statistics\<close>

text \<open>
  A \<^verbatim>\<open>time.Time\<close> is given by \<^verbatim>\<open>Unix()\<close>, its seconds since the epoch, and a
  \<^verbatim>\<open>Granularity\<close> by the text that \<^verbatim>\<open>%s\<close> prints for it. The parameters of
  \<^verbatim>\<open>KeyRingStats\<close> are in the order of its declaration: \<open>forapi\<close> before \<open>forkey\<close>.
\<close>

definition KeyRingStats_reqAddress ::
  "string \<Rightarrow> string \<Rightarrow> string \<Rightarrow> int \<Rightarrow> int \<Rightarrow> string \<Rightarrow> string \<Rightarrow> string \<Rightarrow> string" where
  "KeyRingStats_reqAddress VERSION_ENDPOINT address keyRingIdentifier from to forapi forkey
       granularity =
     (let reqAddress =
            address @ VERSION_ENDPOINT @ ''keyring/'' @ QueryEscape keyRingIdentifier
              @ ''/stats?from='' @ fmt_d from @ ''&to='' @ fmt_d to
              @ ''&granularity='' @ granularity;
          reqAddress1 =
            (if forkey \<noteq> [] then reqAddress @ ''&forkey='' @ QueryEscape forkey else reqAddress);
          reqAddress2 =
            (if forapi \<noteq> [] then reqAddress1 @ ''&forapi='' @ QueryEscape forapi else reqAddress1)
      in reqAddress2)"

definition KeyRingStats ::
  "(string \<Rightarrow> 'stats) \<Rightarrow> string \<Rightarrow> string \<Rightarrow> string \<Rightarrow> int \<Rightarrow> int \<Rightarrow> string \<Rightarrow> string \<Rightarrow> string
     \<Rightarrow> 'stats" where
  "KeyRingStats doStatsRequest VERSION_ENDPOINT address keyRingIdentifier from to forapi forkey
       granularity =
     doStatsRequest
       (KeyRingStats_reqAddress VERSION_ENDPOINT address keyRingIdentifier from to forapi forkey
          granularity)"

definition Stats ::
  "(string \<Rightarrow> 'stats) \<Rightarrow> string \<Rightarrow> KeyRing \<Rightarrow> int \<Rightarrow> int \<Rightarrow> string \<Rightarrow> 'stats" where
  "Stats doStatsRequest VERSION_ENDPOINT this from to granularity =
     KeyRingStats doStatsRequest VERSION_ENDPOINT (axleAddress this) (Identifier this)
       from to [] [] granularity"

definition StatsForKey ::
  "(string \<Rightarrow> 'stats) \<Rightarrow> string \<Rightarrow> KeyRing \<Rightarrow> int \<Rightarrow> int \<Rightarrow> string \<Rightarrow> string \<Rightarrow> 'stats" where
  "StatsForKey doStatsRequest VERSION_ENDPOINT this from to forkey granularity =
     KeyRingStats doStatsRequest VERSION_ENDPOINT (axleAddress this) (Identifier this)
       from to forkey [] granularity"

definition StatsForApi ::
  "(string \<Rightarrow> 'stats) \<Rightarrow> string \<Rightarrow> KeyRing \<Rightarrow> int \<Rightarrow> int \<Rightarrow> string \<Rightarrow> string \<Rightarrow> 'stats" where
  "StatsForApi doStatsRequest VERSION_ENDPOINT this from to forapi granularity =
     KeyRingStats doStatsRequest VERSION_ENDPOINT (axleAddress this) (Identifier this)
       from to [] forapi granularity"

subsection \<open>\<^verbatim>\<open>KeyRings\<close>\<close>

definition KeyRings_reqAddress :: "string \<Rightarrow> string \<Rightarrow> int \<Rightarrow> int \<Rightarrow> string" where
  "KeyRings_reqAddress VERSION_ENDPOINT address from to =
     address @ VERSION_ENDPOINT @ ''keyrings?resolve=true&from='' @ fmt_d from
       @ ''&to='' @ fmt_d to"

text \<open>
  The body of the \<^verbatim>\<open>range\<close> loop, over the entries in the order the loop meets them;
  \<^verbatim>\<open>out[x]\<close> is filled in that order.
\<close>

fun KeyRings_range :: "string \<Rightarrow> (string \<times> json) list \<Rightarrow> error + KeyRing list" where
  "KeyRings_range address [] = Inr []"
| "KeyRings_range address ((identifier, v) # rest) =
     (case Marshal_value v of
        Inl e \<Rightarrow> Inl (UnableToDecodeKeyRing e)
      | Inr jsonvalue \<Rightarrow>
          (case Unmarshal_KeyRing jsonvalue (NewKeyRing address identifier) of
             (keyring, Some e) \<Rightarrow> Inl (UnableToDecodeKeyRing e)
           | (keyring, None) \<Rightarrow>
               (case KeyRings_range address rest of
                  Inl e \<Rightarrow> Inl e
                | Inr out \<Rightarrow> Inr (keyring\<lparr>createOnSave := False\<rparr> # out))))"

text \<open>
  Go leaves the order in which \<^verbatim>\<open>range\<close> visits a map open: \<open>rangeOrder\<close> is the order
  of one run. When the type assertion on \<^verbatim>\<open>response["results"]\<close> fails, \<^verbatim>\<open>err\<close> is
  still the nil that \<^verbatim>\<open>json.Unmarshal\<close> returned, and \<^verbatim>\<open>err.Error()\<close> panics.
\<close>

definition KeyRings ::
  "transport \<Rightarrow> ((string \<times> json) list \<Rightarrow> (string \<times> json) list) \<Rightarrow> string \<Rightarrow> string \<Rightarrow> int \<Rightarrow> int
     \<Rightarrow> (error + KeyRing list) outcome" where
  "KeyRings doHttpRequest rangeOrder VERSION_ENDPOINT address from to =
     (let reqAddress = KeyRings_reqAddress VERSION_ENDPOINT address from to in
      case doHttpRequest ''GET'' reqAddress None of
        Inl e \<Rightarrow> Returns (Inl e)
      | Inr body \<Rightarrow>
          (case Unmarshal_map body of
             Inl e \<Rightarrow> Returns (Inl (UnableToUnmarshalResponse e))
           | Inr response \<Rightarrow>
               (case index response ''results'' of
                  Some (JObject kvs) \<Rightarrow>
                    Returns (KeyRings_range address (rangeOrder (objectMap kvs)))
                | _ \<Rightarrow> Panics)))"

subsection \<open>Transports for the examples\<close>

text \<open>A server that answers every request with the same body, and one that is down.\<close>

definition respond :: "body \<Rightarrow> transport" where
  "respond b = (\<lambda>method url payload. Inr b)"

definition unreachable :: "string \<Rightarrow> transport" where
  "unreachable msg = (\<lambda>method url payload. Inl (TransportError msg))"

section \<open>Properties\<close>

subsection \<open>Numbers that \<^verbatim>\<open>strconv.ParseFloat\<close> keeps, and numbers it refuses\<close>

lemma exponent_bounds_ge1:
  assumes "1 \<le> \<bar>x\<bar>"
  shows "0 \<le> exponent x" and "2 ^ nat (exponent x) \<le> \<bar>x\<bar>" and "\<bar>x\<bar> < 2 ^ nat (exponent x + 1)"
proof -
  let ?m = "\<lfloor>\<bar>x\<bar>\<rfloor>"
  from assms have m: "0 < ?m" by linarith
  have e: "exponent x = bitlen ?m - 1" using assms by (simp add: exponent_def)
  from m have b1: "1 \<le> bitlen ?m" by (auto simp: bitlen_alt_def)
  then show "0 \<le> exponent x" by (simp add: e)
  from bitlen_bounds [OF m] have lo: "2 ^ nat (bitlen ?m - 1) \<le> ?m" and hi: "?m < 2 ^ nat (bitlen ?m)"
    by auto
  from lo have "real_of_int (2 ^ nat (bitlen ?m - 1)) \<le> real_of_int ?m" by linarith
  also have "\<dots> \<le> \<bar>x\<bar>" by linarith
  finally show "2 ^ nat (exponent x) \<le> \<bar>x\<bar>" by (simp add: e)
  from hi have "?m + 1 \<le> 2 ^ nat (bitlen ?m)" by linarith
  then have "real_of_int (?m + 1) \<le> real_of_int (2 ^ nat (bitlen ?m))" by linarith
  moreover have "\<bar>x\<bar> < real_of_int (?m + 1)" by linarith
  ultimately have "\<bar>x\<bar> < real_of_int (2 ^ nat (bitlen ?m))" by linarith
  then show "\<bar>x\<bar> < 2 ^ nat (exponent x + 1)" by (simp add: e)
qed

lemma exponent_bounds_lt1:
  assumes "x \<noteq> 0" and "\<bar>x\<bar> < 1"
  shows "2 powi exponent x \<le> \<bar>x\<bar>" and "\<bar>x\<bar> < 2 powi (exponent x + 1)"
proof -
  let ?z = "1 / \<bar>x\<bar>"
  let ?m = "\<lceil>?z\<rceil> - 1"
  let ?b = "bitlen ?m"
  from assms have x: "0 < \<bar>x\<bar>" by simp
  with assms(2) have z1: "1 < ?z" by (simp add: field_simps)
  then have m: "0 < ?m" by linarith
  have e: "exponent x = - ?b" using assms(2) by (simp add: exponent_def)
  from m have b1: "1 \<le> ?b" by (auto simp: bitlen_alt_def)
  from bitlen_bounds [OF m] have lo: "2 ^ nat (?b - 1) \<le> ?m" and hi: "?m < 2 ^ nat ?b"
    by auto
  from hi have "?m + 1 \<le> 2 ^ nat ?b" by linarith
  then have "real_of_int (?m + 1) \<le> real_of_int (2 ^ nat ?b)" by (simp only: of_int_le_iff)
  then have "real_of_int (?m + 1) \<le> 2 ^ nat ?b" by simp
  moreover have "?z \<le> real_of_int (?m + 1)" by linarith
  ultimately have "?z \<le> 2 ^ nat ?b" by (rule order_trans [rotated])
  then have "1 \<le> 2 ^ nat ?b * \<bar>x\<bar>" using x by (simp add: field_simps)
  then have "1 / 2 ^ nat ?b \<le> \<bar>x\<bar>" by (simp add: field_simps)
  moreover have "2 powi (- ?b) = 1 / (2::real) ^ nat ?b"
    using b1 by (simp add: power_int_def field_simps)
  ultimately show "2 powi exponent x \<le> \<bar>x\<bar>" by (simp add: e)
  from lo have "real_of_int (2 ^ nat (?b - 1)) \<le> real_of_int ?m" by (simp only: of_int_le_iff)
  then have "2 ^ nat (?b - 1) \<le> real_of_int ?m" by simp
  moreover have "real_of_int ?m < ?z" by linarith
  ultimately have "2 ^ nat (?b - 1) < ?z" by (rule order_le_less_trans)
  then have "2 ^ nat (?b - 1) * \<bar>x\<bar> < 1" using x by (simp add: field_simps)
  then have "\<bar>x\<bar> < 1 / 2 ^ nat (?b - 1)" by (simp add: field_simps)
  moreover have "2 powi (- ?b + 1) = 1 / (2::real) ^ nat (?b - 1)"
    using b1 by (simp add: power_int_def field_simps)
  ultimately show "\<bar>x\<bar> < 2 powi (exponent x + 1)" by (simp add: e)
qed

lemma exponent_bounds:
  assumes "x \<noteq> 0"
  shows "2 powi exponent x \<le> \<bar>x\<bar> \<and> \<bar>x\<bar> < 2 powi (exponent x + 1)"
proof (cases "1 \<le> \<bar>x\<bar>")
  case True
  note eb = exponent_bounds_ge1 [OF True]
  from eb(1) have "2 powi exponent x = (2::real) ^ nat (exponent x)"
    and "2 powi (exponent x + 1) = (2::real) ^ nat (exponent x + 1)"
    by (simp_all add: power_int_def)
  with eb show ?thesis by simp
next
  case False
  with assms exponent_bounds_lt1 [of x] show ?thesis by simp
qed

lemma roundHalfEven_of_int: "roundHalfEven (of_int n) = n"
  by (simp add: roundHalfEven_def)

lemma roundHalfEven_ge: "of_int n \<le> y \<Longrightarrow> n \<le> roundHalfEven y"
  unfolding roundHalfEven_def by (auto simp: le_floor_iff) linarith+

lemma roundHalfEven_le:
  assumes "y \<le> of_int n"
  shows "roundHalfEven y \<le> n"
proof (cases "\<lfloor>y\<rfloor> < n")
  case True
  then show ?thesis unfolding roundHalfEven_def by auto
next
  case False
  moreover from assms have "\<lfloor>y\<rfloor> \<le> n" by (simp add: floor_le_iff)
  ultimately have eq: "\<lfloor>y\<rfloor> = n" by simp
  with assms have "y - of_int \<lfloor>y\<rfloor> \<le> 0" by simp
  then have "y - of_int \<lfloor>y\<rfloor> < 1 / 2" by linarith
  then show ?thesis using eq unfolding roundHalfEven_def by simp
qed

lemma nearestFloat64_of_int:
  assumes "\<bar>n\<bar> < 2 ^ 53"
  shows "nearestFloat64 (of_int n) = of_int n"
proof (cases "n = 0")
  case True
  then show ?thesis by (simp add: nearestFloat64_def)
next
  case False
  let ?x = "real_of_int n"
  let ?e = "exponent ?x"
  from False have ge1: "1 \<le> \<bar>?x\<bar>" by linarith
  note eb = exponent_bounds_ge1 [OF ge1]
  have "(2::real) ^ nat ?e \<le> \<bar>?x\<bar>" by (rule eb(2))
  also have "\<bar>?x\<bar> < 2 ^ 53"
  proof -
    from assms have "real_of_int \<bar>n\<bar> < real_of_int (2 ^ 53)" by (simp only: of_int_less_iff)
    then show ?thesis by simp
  qed
  finally have "(2::real) ^ nat ?e < 2 ^ 53" .
  then have "nat ?e < 53" by (rule power_less_imp_less_exp [rotated]) simp
  with eb(1) have e52: "?e \<le> 52" by linarith
  from eb(1) have mx: "max ?e (- 1022) = ?e" by simp
  define k where "k = nat (52 - ?e)"
  from e52 have q: "?e - 52 = - int k" by (simp add: k_def)
  have scaled: "?x / 2 powi (?e - 52) = of_int (n * 2 ^ k)"
    by (simp add: q power_int_minus field_simps)
  have "nearestFloat64 ?x = of_int (roundHalfEven (?x / 2 powi (?e - 52))) * 2 powi (?e - 52)"
    using False by (simp add: nearestFloat64_def mx)
  also have "\<dots> = of_int (n * 2 ^ k) * 2 powi (?e - 52)"
    by (simp only: scaled roundHalfEven_of_int)
  also have "\<dots> = ?x"
    by (simp add: q power_int_minus field_simps)
  finally show ?thesis .
qed

lemma ParseFloat_of_int:
  assumes "\<bar>n\<bar> < 2 ^ 53"
  shows "ParseFloat (of_int n) = Some (of_int n)"
proof -
  from assms have "real_of_int \<bar>n\<bar> < real_of_int (2 ^ 53)" by (simp only: of_int_less_iff)
  then have "\<bar>real_of_int n\<bar> < 2 ^ 53" by simp
  also have "(2::real) ^ 53 \<le> 2 ^ 1024" by (rule power_increasing) simp_all
  finally have "\<not> 2 ^ 1024 \<le> \<bar>real_of_int n\<bar>" by simp
  then show ?thesis by (simp add: ParseFloat_def nearestFloat64_of_int [OF assms])
qed

lemma ParseFloat_overflow:
  assumes "2 ^ 1024 \<le> \<bar>x\<bar>"
  shows "ParseFloat x = None"
proof -
  let ?e = "exponent x"
  have one: "(1::real) \<le> 2 ^ 1024" by simp
  with assms have ge1: "1 \<le> \<bar>x\<bar>" by linarith
  note eb = exponent_bounds_ge1 [OF ge1]
  from assms eb(3) have "(2::real) ^ 1024 < 2 ^ nat (?e + 1)" by linarith
  then have "1024 < nat (?e + 1)" by (rule power_less_imp_less_exp [rotated]) simp
  then have e: "1024 \<le> ?e" by linarith
  then have mx: "max ?e (- 1022) = ?e" by simp
  define k where "k = nat (?e - 52)"
  from e have q: "?e - 52 = int k" and ek: "nat ?e = k + 52" by (simp_all add: k_def)
  let ?u = "(2::real) ^ k"
  have u: "2 powi (?e - 52) = ?u" by (simp add: q)
  have upos: "0 < ?u" by simp
  from ge1 have x0: "x \<noteq> 0" by auto
  have nf: "nearestFloat64 x = of_int (roundHalfEven (x / ?u)) * ?u"
    using x0 by (simp add: nearestFloat64_def mx u)
  have big: "(2::real) ^ 52 \<le> \<bar>x\<bar> / ?u"
  proof -
    have "(2::real) ^ 52 * ?u = 2 ^ nat ?e" by (simp add: ek power_add)
    also have "\<dots> \<le> \<bar>x\<bar>" by (rule eb(2))
    finally show ?thesis using upos by (simp add: pos_le_divide_eq)
  qed
  have "(2::int) ^ 52 \<le> \<bar>roundHalfEven (x / ?u)\<bar>"
  proof (cases "0 \<le> x")
    case True
    with big have "real_of_int (2 ^ 52) \<le> x / ?u" by simp
    then have "2 ^ 52 \<le> roundHalfEven (x / ?u)" by (rule roundHalfEven_ge)
    then show ?thesis by linarith
  next
    case False
    with big have "x / ?u \<le> real_of_int (- (2 ^ 52))" by (simp add: field_simps)
    then have "roundHalfEven (x / ?u) \<le> - (2 ^ 52)" by (rule roundHalfEven_le)
    then show ?thesis by linarith
  qed
  then have "real_of_int (2 ^ 52) \<le> real_of_int \<bar>roundHalfEven (x / ?u)\<bar>"
    by (simp only: of_int_le_iff)
  then have r52: "(2::real) ^ 52 \<le> \<bar>of_int (roundHalfEven (x / ?u))\<bar>" by simp
  have "(2::real) ^ 1024 \<le> 2 ^ nat ?e" using e by (intro power_increasing) simp_all
  also have "\<dots> = 2 ^ 52 * ?u" by (simp only: ek power_add mult.commute)
  also have "\<dots> \<le> \<bar>of_int (roundHalfEven (x / ?u))\<bar> * ?u"
    using r52 upos by (intro mult_right_mono) simp_all
  also have "\<dots> = \<bar>nearestFloat64 x\<bar>" by (simp add: nf abs_mult)
  finally show ?thesis by (simp add: ParseFloat_def)
qed

lemma ParseFloat_1: "ParseFloat 1 = Some 1"
  using ParseFloat_of_int [of 1] by simp

lemma ParseFloat_9: "ParseFloat 9 = Some 9"
  using ParseFloat_of_int [of 9] by simp

lemma ParseFloat_1e400: "ParseFloat (10 ^ 400) = None"
  by (rule ParseFloat_overflow) simp

subsection \<open>Values read from a document\<close>

lemma decodeMembers_Nil: "decodeMembers [] = Some []"
  by (simp add: decodeMembers_def)

lemma decodeMembers_Cons:
  "decodeMembers ((k, v) # kvs) =
     (case decodeValue v of
        None \<Rightarrow> None
      | Some w \<Rightarrow> map_option ((#) (k, w)) (decodeMembers kvs))"
  by (simp add: decodeMembers_def split: option.split)

lemma decodeValue_JBool: "decodeValue v = Some (JBool b) \<longleftrightarrow> v = JBool b"
  by (cases v) auto

lemma decodeValue_not_JBool:
  "decodeValue v = Some w \<Longrightarrow> (\<forall>b. v \<noteq> JBool b) \<Longrightarrow> (\<forall>b. w \<noteq> JBool b)"
  by (cases v) auto

lemma decodeMembers_member:
  "decodeMembers kvs = Some kvs' \<Longrightarrow> (k, v) \<in> set kvs \<Longrightarrow> \<exists>w. decodeValue v = Some w"
proof (induction kvs arbitrary: kvs')
  case Nil
  then show ?case by simp
next
  case (Cons a kvs)
  obtain k0 v0 where a: "a = (k0, v0)" by (cases a)
  from Cons.prems(1) obtain w0 rest where
    w0: "decodeValue v0 = Some w0" and rest: "decodeMembers kvs = Some rest"
    unfolding a decodeMembers_Cons by (auto split: option.splits)
  from Cons.prems(2) have "(k, v) = (k0, v0) \<or> (k, v) \<in> set kvs" by (simp add: a)
  then show ?case using w0 Cons.IH [OF rest] by auto
qed

lemma decodeMembers_lookup:
  "decodeMembers kvs = Some kvs' \<Longrightarrow>
     map_of (rev kvs') k = (case map_of (rev kvs) k of None \<Rightarrow> None | Some v \<Rightarrow> decodeValue v)"
proof (induction kvs arbitrary: kvs')
  case Nil
  then show ?case by (simp add: decodeMembers_Nil)
next
  case (Cons a kvs)
  obtain k0 v0 where a: "a = (k0, v0)" by (cases a)
  from Cons.prems obtain w0 rest where
    w0: "decodeValue v0 = Some w0" and rest: "decodeMembers kvs = Some rest"
    and kvs': "kvs' = (k0, w0) # rest"
    unfolding a decodeMembers_Cons by (auto split: option.splits)
  note IH = Cons.IH [OF rest]
  show ?case
  proof (cases "map_of (rev kvs) k")
    case None
    with IH have "map_of (rev rest) k = None" by simp
    with None w0 show ?thesis by (simp add: a kvs' map_add_def)
  next
    case (Some v)
    then have "(k, v) \<in> set kvs" by (auto dest: map_of_SomeD)
    with rest obtain w where w: "decodeValue v = Some w" by (blast dest: decodeMembers_member)
    with IH Some have "map_of (rev rest) k = Some w" by simp
    with Some w show ?thesis by (simp add: a kvs' map_add_def)
  qed
qed

subsection \<open>Fields that decoding never writes\<close>

lemma decodeMember_frame:
  "Identifier (fst (decodeMember st kv)) = Identifier (fst st)"
  "axleAddress (fst (decodeMember st kv)) = axleAddress (fst st)"
  "createOnSave (fst (decodeMember st kv)) = createOnSave (fst st)"
  by (simp_all add: decodeMember_def Let_def)

lemma foldl_decodeMember_frame:
  "Identifier (fst (foldl decodeMember st kvs)) = Identifier (fst st)"
  "axleAddress (fst (foldl decodeMember st kvs)) = axleAddress (fst st)"
  "createOnSave (fst (foldl decodeMember st kvs)) = createOnSave (fst st)"
  by (induction kvs arbitrary: st) (simp_all add: decodeMember_frame)

lemma Unmarshal_KeyRing_cases:
  "fst (Unmarshal_KeyRing data k) = k \<or>
   (\<exists>kvs. Unmarshal_KeyRing data k = foldl decodeMember (k, None) kvs)"
  by (cases "(data, k)" rule: Unmarshal_KeyRing.cases) auto

lemma Unmarshal_KeyRing_frame:
  "Identifier (fst (Unmarshal_KeyRing data k)) = Identifier k"
  "axleAddress (fst (Unmarshal_KeyRing data k)) = axleAddress k"
  "createOnSave (fst (Unmarshal_KeyRing data k)) = createOnSave k"
proof -
  from Unmarshal_KeyRing_cases [of data k]
  have "Identifier (fst (Unmarshal_KeyRing data k)) = Identifier k \<and>
        axleAddress (fst (Unmarshal_KeyRing data k)) = axleAddress k \<and>
        createOnSave (fst (Unmarshal_KeyRing data k)) = createOnSave k"
  proof
    assume "fst (Unmarshal_KeyRing data k) = k"
    then show ?thesis by simp
  next
    assume "\<exists>kvs. Unmarshal_KeyRing data k = foldl decodeMember (k, None) kvs"
    then obtain kvs where "Unmarshal_KeyRing data k = foldl decodeMember (k, None) kvs" ..
    then show ?thesis by (simp add: foldl_decodeMember_frame)
  qed
  then show
    "Identifier (fst (Unmarshal_KeyRing data k)) = Identifier k"
    "axleAddress (fst (Unmarshal_KeyRing data k)) = axleAddress k"
    "createOnSave (fst (Unmarshal_KeyRing data k)) = createOnSave k"
    by simp_all
qed

lemma Unmarshal_KeyRing_ptr_fst:
  "fst (Unmarshal_KeyRing_ptr data k) = k \<or>
   fst (Unmarshal_KeyRing_ptr data k) = fst (Unmarshal_KeyRing data k)"
  by (cases "(data, k)" rule: Unmarshal_KeyRing_ptr.cases) simp_all

lemma Unmarshal_KeyRing_ptr_frame:
  "Identifier (fst (Unmarshal_KeyRing_ptr data k)) = Identifier k"
  "axleAddress (fst (Unmarshal_KeyRing_ptr data k)) = axleAddress k"
  "createOnSave (fst (Unmarshal_KeyRing_ptr data k)) = createOnSave k"
  using Unmarshal_KeyRing_ptr_fst [of data k]
  by (auto simp: Unmarshal_KeyRing_frame)

lemma populate_alt:
  "populateKeyRingFromResponse k body path =
     (case Unmarshal_map body of
        Inl e \<Rightarrow> (k, False, Some (UnableToUnmarshalResponse e))
      | Inr response \<Rightarrow>
          (case descend response path of
             Inl e \<Rightarrow> (k, False, Some e)
           | Inr r \<Rightarrow>
               (case Marshal_map r of
                  Inl e \<Rightarrow> (k, False, Some (UnableToDecodeKeyRing e))
                | Inr j \<Rightarrow>
                    (fst (Unmarshal_KeyRing_ptr j k), fst (snd (Unmarshal_KeyRing_ptr j k)),
                     map_option UnableToDecodeKeyRing (snd (snd (Unmarshal_KeyRing_ptr j k)))))))"
  unfolding populateKeyRingFromResponse_def
  by (simp split: sum.split prod.split option.split)

lemma populate_frame:
  "Identifier (fst (populateKeyRingFromResponse k body path)) = Identifier k"
  "axleAddress (fst (populateKeyRingFromResponse k body path)) = axleAddress k"
  "createOnSave (fst (populateKeyRingFromResponse k body path)) = createOnSave k"
  unfolding populate_alt
  by (simp_all split: sum.split add: Unmarshal_KeyRing_ptr_frame)

subsection \<open>The walk along the key path\<close>

lemma Marshal_map_total: "\<exists>j. Marshal_map m = Inr (Doc j)"
  by (cases m) (simp_all add: Marshal_map_def)

lemma descend_append:
  "descend m (pre @ rest) =
     (case descend m pre of Inl e \<Rightarrow> Inl e | Inr m' \<Rightarrow> descend m' rest)"
proof (induction pre arbitrary: m)
  case Nil
  show ?case by simp
next
  case (Cons key pre)
  show ?case
  proof (cases "index m key")
    case None
    then show ?thesis by simp
  next
    case (Some v)
    then show ?thesis by (cases v) (simp_all add: Cons.IH)
  qed
qed

lemma descend_not_nil:
  "descend (Some kvs) path = Inr m' \<Longrightarrow> m' \<noteq> None"
proof (induction path arbitrary: kvs)
  case Nil
  then show ?case by auto
next
  case (Cons key path)
  show ?case
  proof (cases "index (Some kvs) key")
    case None
    with Cons.prems show ?thesis by simp
  next
    case (Some v)
    with Cons.prems Cons.IH show ?thesis by (cases v) auto
  qed
qed

lemma descend_step_not_nil:
  assumes "descend m (key # path) = Inr m'"
  shows "m' \<noteq> None"
proof (cases "index m key")
  case None
  with assms show ?thesis by simp
next
  case (Some v)
  with assms show ?thesis by (cases v) (auto dest: descend_not_nil)
qed

text \<open>
  \<^verbatim>\<open>Save\<close> and \<^verbatim>\<open>GetKeyRing\<close> go on to write \<^verbatim>\<open>createOnSave\<close> through the pointer
  they passed. Their key paths are not empty, and then the pointer is never reset.
\<close>

lemma populate_keeps_pointer:
  assumes "path \<noteq> []"
  shows "fst (snd (populateKeyRingFromResponse k body path)) = False"
proof -
  from assms obtain key rest where path: "path = key # rest" by (cases path) auto
  show ?thesis
  proof (cases "Unmarshal_map body")
    case (Inl e)
    then show ?thesis by (simp add: populate_alt)
  next
    case (Inr response)
    note resp = this
    show ?thesis
    proof (cases "descend response path")
      case (Inl e)
      with resp show ?thesis by (simp add: populate_alt)
    next
      case (Inr r)
      with path have "descend response (key # rest) = Inr r" by simp
      then have "r \<noteq> None" by (rule descend_step_not_nil)
      then obtain kvs where "r = Some kvs" by auto
      with resp Inr show ?thesis by (simp add: populate_alt Marshal_map_def)
    qed
  qed
qed


subsection \<open>Escaped identifiers\<close>

lemma QueryEscape_append: "QueryEscape (s @ t) = QueryEscape s @ QueryEscape t"
  by (induction s) simp_all

lemma upperhex_alnum:
  assumes "n < 16"
  shows "isAlnum (upperhex ! n)"
proof -
  from assms have "n \<in> {0, 1, 2, 3, 4, 5, 6, 7, 8, 9, 10, 11, 12, 13, 14, 15}" by auto arith
  then show ?thesis by (auto simp: upperhex_def isAlnum_def)
qed

lemma QueryEscape_bytes:
  "c \<in> set (QueryEscape s) \<Longrightarrow> \<not> shouldEscape c \<or> c = CHR ''%'' \<or> c = CHR ''+''"
proof (induction s)
  case Nil
  then show ?case by simp
next
  case (Cons a s)
  have hi: "isAlnum (upperhex ! (of_char a div 16))"
    by (rule upperhex_alnum) (simp add: less_mult_imp_div_less)
  have lo: "isAlnum (upperhex ! (of_char a mod 16))"
    by (rule upperhex_alnum) simp
  from Cons hi lo show ?case
    by (auto simp: shouldEscape_def split: if_splits)
qed

lemma QueryEscape_at:
  "QueryEscape (s @ c # r) =
     QueryEscape s @
     (if c = CHR '' '' then ''+''
      else if shouldEscape c then
        [CHR ''%'', upperhex ! (of_char c div 16), upperhex ! (of_char c mod 16)]
      else [c]) @ QueryEscape r"
  by (simp add: QueryEscape_append)

subsection \<open>Results of \<^verbatim>\<open>Save\<close>, \<^verbatim>\<open>GetKeyRing\<close> and \<^verbatim>\<open>KeyRings\<close>\<close>

lemma Save_alt:
  "Save t V now k =
     (let this = k\<lparr>UpdatedAt := Finite (of_int (now sdiv (1000 * 1000)))\<rparr> in
      case Marshal_KeyRing this of
        Inl e \<Rightarrow> (this, Some (UnableToMarshalKeyRing e))
      | Inr marshalled \<Rightarrow>
          if \<not> createOnSave k then (this, Some UpdateNotSupported)
          else
            (case t ''POST'' (Save_reqAddress V k) (Some marshalled) of
               Inl e \<Rightarrow> (this, Some e)
             | Inr body \<Rightarrow>
                 (case snd (snd (populateKeyRingFromResponse this body [''results''])) of
                    Some e \<Rightarrow> (fst (populateKeyRingFromResponse this body [''results'']), Some e)
                  | None \<Rightarrow>
                      ((fst (populateKeyRingFromResponse this body [''results'']))
                         \<lparr>createOnSave := False\<rparr>, None))))"
  unfolding Save_def Let_def
  by (simp split: sum.split prod.split option.split)

lemma Save_ok_not_pending:
  "snd (Save t V now k) = None \<longrightarrow> \<not> createOnSave (fst (Save t V now k))"
  unfolding Save_alt Let_def
  by (simp split: sum.split option.split)

lemma Save_error_frame:
  "snd (Save t V now k) = Some e \<longrightarrow>
     Identifier (fst (Save t V now k)) = Identifier k \<and>
     axleAddress (fst (Save t V now k)) = axleAddress k \<and>
     createOnSave (fst (Save t V now k)) = createOnSave k"
  unfolding Save_alt Let_def
  by (simp split: sum.split option.split add: populate_frame)

lemma populate_error_untouched:
  "snd (snd (populateKeyRingFromResponse k body path)) = Some e \<longrightarrow>
     (\<forall>j. e \<noteq> UnableToDecodeKeyRing j) \<longrightarrow>
     fst (populateKeyRingFromResponse k body path) = k"
  using Marshal_map_total
  unfolding populate_alt
  by (auto split: sum.split)

lemma Save_error_timestamps:
  "snd (Save t V now k) = Some e \<longrightarrow> (\<forall>j. e \<noteq> UnableToDecodeKeyRing j) \<longrightarrow>
     CreatedAt (fst (Save t V now k)) = CreatedAt k \<and>
     UpdatedAt (fst (Save t V now k)) = Finite (of_int (now sdiv (1000 * 1000)))"
  unfolding Save_alt Let_def
  by (simp split: sum.split option.split add: populate_error_untouched)

lemma NewKeyRing_fields:
  "Identifier (NewKeyRing a i) = i"
  "axleAddress (NewKeyRing a i) = a"
  "createOnSave (NewKeyRing a i) = True"
  "CreatedAt (NewKeyRing a i) = Finite 0"
  "UpdatedAt (NewKeyRing a i) = Finite 0"
  by (simp_all add: NewKeyRing_def zeroKeyRing_def)

lemma GetKeyRing_alt:
  "GetKeyRing t V a i =
     (case t ''GET'' (GetKeyRing_reqAddress V a i) None of
        Inl e \<Rightarrow> Inl e
      | Inr body \<Rightarrow>
          (case snd (snd (populateKeyRingFromResponse (NewKeyRing a i) body [''results''])) of
             Some e \<Rightarrow> Inl e
           | None \<Rightarrow>
               Inr ((fst (populateKeyRingFromResponse (NewKeyRing a i) body [''results'']))
                      \<lparr>createOnSave := False\<rparr>)))"
  unfolding GetKeyRing_def Let_def
  by (simp split: sum.split prod.split option.split)

lemma GetKeyRing_result:
  assumes "GetKeyRing t V a i = Inr k"
  shows "\<not> createOnSave k" and "Identifier k = i" and "axleAddress k = a"
proof -
  from assms obtain body where
    k: "k = (fst (populateKeyRingFromResponse (NewKeyRing a i) body [''results'']))
              \<lparr>createOnSave := False\<rparr>"
    unfolding GetKeyRing_alt by (auto split: sum.splits option.splits)
  show "\<not> createOnSave k" by (simp add: k)
  show "Identifier k = i" by (simp add: k populate_frame NewKeyRing_fields)
  show "axleAddress k = a" by (simp add: k populate_frame NewKeyRing_fields)
qed

lemma KeyRings_range_not_pending:
  "KeyRings_range a es = Inr out \<Longrightarrow> k \<in> set out \<Longrightarrow> \<not> createOnSave k"
proof (induction es arbitrary: out)
  case Nil
  then show ?case by simp
next
  case (Cons entry es)
  obtain name v where entry: "entry = (name, v)" by (cases entry)
  from Cons.prems(1) obtain keyring out' where
    rest: "KeyRings_range a es = Inr out'" and
    out: "out = keyring\<lparr>createOnSave := False\<rparr> # out'"
    unfolding entry by (auto split: sum.splits prod.splits option.splits)
  from Cons.prems(2) out have "k = keyring\<lparr>createOnSave := False\<rparr> \<or> k \<in> set out'" by simp
  then show ?case using Cons.IH [OF rest] by auto
qed

lemma KeyRings_returns:
  assumes "KeyRings t ord V a from to = Returns (Inr out)"
  shows "\<exists>es. KeyRings_range a es = Inr out"
  using assms unfolding KeyRings_def Let_def
  by (auto split: sum.splits option.splits json.splits)

subsection \<open>Maps read from objects, and \<^verbatim>\<open>DeleteKeyRing\<close>\<close>

text \<open>
  The map read from an object has each name once, with the value of the last member of
  that name.
\<close>

lemma objectMap_keys: "fst ` set (objectMap kvs) = fst ` set kvs"
  by (induction kvs rule: objectMap.induct) auto

lemma objectMap_distinct: "distinct (map fst (objectMap kvs))"
proof (induction kvs rule: objectMap.induct)
  case 1
  show ?case by simp
next
  case (2 k v kvs)
  then show ?case using objectMap_keys [of kvs] by (auto simp: image_iff)
qed

lemma objectMap_last: "map_of (objectMap kvs) = map_of (rev kvs)"
proof (induction kvs rule: objectMap.induct)
  case 1
  show ?case by simp
next
  case (2 k v kvs)
  show ?case
  proof (cases "k \<in> fst ` set kvs")
    case True
    then have "map_of (rev kvs) k \<noteq> None"
      by (simp add: map_of_eq_None_iff)
    then have "map_of (rev kvs @ [(k, v)]) = map_of (rev kvs)"
      by (auto simp: map_add_def fun_eq_iff split: option.splits)
    with True 2 show ?thesis by simp
  next
    case False
    then have "map_of (rev kvs) k = None"
      by (simp add: map_of_eq_None_iff)
    then have "map_of (rev kvs @ [(k, v)]) = (map_of (rev kvs))(k \<mapsto> v)"
      by (auto simp: map_add_def fun_eq_iff split: option.splits)
    with False 2 show ?thesis by simp
  qed
qed

lemma DeleteKeyRing_alt:
  "DeleteKeyRing t V a i =
     (case t ''DELETE'' (DeleteKeyRing_reqAddress V a i) None of
        Inl e \<Rightarrow> Some e
      | Inr body \<Rightarrow>
          (case Unmarshal_map body of
             Inl e \<Rightarrow> Some (UnableToUnmarshalResponseFrom (DeleteKeyRing_reqAddress V a i) e)
           | Inr responseMap \<Rightarrow>
               (case index responseMap ''results'' of
                  None \<Rightarrow> Some (MissingResponseFrom (DeleteKeyRing_reqAddress V a i))
                | Some v \<Rightarrow>
                    if v = JBool True then None
                    else if v = JBool False then Some (DeleteFailedAt (DeleteKeyRing_reqAddress V a i))
                    else Some (UnableToExtractResponseObjectFrom (DeleteKeyRing_reqAddress V a i)))))"
  unfolding DeleteKeyRing_def Let_def
  by (simp split: sum.split option.split json.split)

lemma Unmarshal_map_Inr:
  "Unmarshal_map body = Inr m \<longleftrightarrow>
     (body = Doc JNull \<and> m = None) \<or>
     (\<exists>kvs members. body = Doc (JObject kvs) \<and> decodeMembers kvs = Some members \<and>
        m = Some (objectMap members))"
  by (cases body rule: Unmarshal_map.cases) (auto split: option.splits)

lemma DeleteKeyRing_object:
  assumes "t ''DELETE'' (DeleteKeyRing_reqAddress V a i) None = Inr (Doc (JObject kvs))"
  shows "DeleteKeyRing t V a i =
     (case decodeMembers kvs of
        None \<Rightarrow>
          Some (UnableToUnmarshalResponseFrom (DeleteKeyRing_reqAddress V a i)
                  (UnmarshalTypeError ''number'' ''float64''))
      | Some members \<Rightarrow>
          (case map_of (rev kvs) ''results'' of
             None \<Rightarrow> Some (MissingResponseFrom (DeleteKeyRing_reqAddress V a i))
           | Some v \<Rightarrow>
               if v = JBool True then None
               else if v = JBool False then Some (DeleteFailedAt (DeleteKeyRing_reqAddress V a i))
               else Some (UnableToExtractResponseObjectFrom (DeleteKeyRing_reqAddress V a i))))"
proof (cases "decodeMembers kvs")
  case None
  with assms show ?thesis by (simp add: DeleteKeyRing_alt)
next
  case (Some members)
  note look = decodeMembers_lookup [OF Some, of "''results''"]
  show ?thesis
  proof (cases "map_of (rev kvs) ''results''")
    case None
    with look assms Some show ?thesis
      by (simp add: DeleteKeyRing_alt index_def objectMap_last)
  next
    case (Some v)
    then have "(''results'', v) \<in> set kvs" by (auto dest: map_of_SomeD)
    with \<open>decodeMembers kvs = Some members\<close> obtain w where w: "decodeValue v = Some w"
      by (blast dest: decodeMembers_member)
    have tt: "w = JBool True \<longleftrightarrow> v = JBool True" and ff: "w = JBool False \<longleftrightarrow> v = JBool False"
      using w decodeValue_JBool [of v] by auto
    from look Some w have "map_of (rev members) ''results'' = Some w" by simp
    with assms \<open>decodeMembers kvs = Some members\<close> Some tt ff show ?thesis
      by (simp add: DeleteKeyRing_alt index_def objectMap_last)
  qed
qed

lemma DeleteKeyRing_nil_iff:
  "DeleteKeyRing t V a i = None \<longleftrightarrow>
     (\<exists>kvs. t ''DELETE'' (DeleteKeyRing_reqAddress V a i) None = Inr (Doc (JObject kvs)) \<and>
            decodeMembers kvs \<noteq> None \<and> map_of (rev kvs) ''results'' = Some (JBool True))"
proof (cases "t ''DELETE'' (DeleteKeyRing_reqAddress V a i) None")
  case (Inl e)
  then show ?thesis by (simp add: DeleteKeyRing_alt)
next
  case (Inr body)
  show ?thesis
  proof (cases "\<exists>kvs. body = Doc (JObject kvs)")
    case True
    then obtain kvs where body: "body = Doc (JObject kvs)" ..
    with Inr have t: "t ''DELETE'' (DeleteKeyRing_reqAddress V a i) None = Inr (Doc (JObject kvs))"
      by simp
    show ?thesis
      unfolding DeleteKeyRing_object [of t V a i kvs, OF t] t
      by (auto split: option.splits)
  next
    case False
    then have "index m ''results'' = None" if "Unmarshal_map body = Inr m" for m
      using that by (auto simp: Unmarshal_map_Inr index_def)
    with False Inr show ?thesis
      by (auto simp: DeleteKeyRing_alt split: sum.splits)
  qed
qed

subsection \<open>Failures of the walk, and decoding the two timestamps\<close>

lemma populate_type_error:
  assumes "Unmarshal_map body = Inr m" and "descend m pre = Inr m'"
    and "index m' key = Some v" and "\<forall>kvs. v \<noteq> JObject kvs"
  shows "populateKeyRingFromResponse k body (pre @ key # post) =
           (k, False, Some (KeyDidNotContainMap key))"
proof -
  from assms(3,4) have "descend m' (key # post) = Inl (KeyDidNotContainMap key)"
    by (cases v) simp_all
  with assms(2) have "descend m (pre @ key # post) = Inl (KeyDidNotContainMap key)"
    by (simp add: descend_append)
  with assms(1) show ?thesis by (simp add: populate_alt)
qed

lemma populate_missing_key:
  assumes "Unmarshal_map body = Inr m" and "descend m pre = Inr m'"
    and "index m' key = None"
  shows "populateKeyRingFromResponse k body (pre @ key # post) =
           (k, False, Some (MissingExpectedKey key))"
proof -
  from assms(3) have "descend m' (key # post) = Inl (MissingExpectedKey key)"
    by simp
  with assms(2) have "descend m (pre @ key # post) = Inl (MissingExpectedKey key)"
    by (simp add: descend_append)
  with assms(1) show ?thesis by (simp add: populate_alt)
qed

lemma populate_sample:
  "populateKeyRingFromResponse k
     (Doc (JObject [(''results'', JObject [(''identifier'', JString ''x''), (''createdAt'', JNumber 1)])]))
     [''results''] = (k\<lparr>CreatedAt := Finite 1\<rparr>, False, None)"
  by (simp add: populateKeyRingFromResponse_def index_def Marshal_map_def decodeMember_def
        equalFold_def foldByte_def Let_def decodeMembers_def ParseFloat_1)

lemma decode_createdAt:
  "decodeMember (k, e) (''createdAt'', JNumber r) = (k\<lparr>CreatedAt := Finite r\<rparr>, e)"
  by (cases e) (simp_all add: decodeMember_def equalFold_def foldByte_def Let_def)

lemma decode_updatedAt:
  "decodeMember (k, e) (''updatedAt'', JNumber r) = (k\<lparr>UpdatedAt := Finite r\<rparr>, e)"
  by (cases e) (simp_all add: decodeMember_def equalFold_def foldByte_def Let_def)

subsection \<open>The address of a statistics request, and the panic of \<^verbatim>\<open>KeyRings\<close>\<close>

lemma StatsForKey_address:
  assumes "forkey \<noteq> []"
  shows "StatsForKey doStatsRequest V this from to forkey granularity =
           doStatsRequest
             (axleAddress this @ V @ ''keyring/'' @ QueryEscape (Identifier this)
                @ ''/stats?from='' @ fmt_d from @ ''&to='' @ fmt_d to
                @ ''&granularity='' @ granularity @ ''&forapi='' @ QueryEscape forkey)"
  using assms
  by (simp add: StatsForKey_def KeyRingStats_def KeyRingStats_reqAddress_def Let_def)

lemma StatsForApi_address:
  assumes "forapi \<noteq> []"
  shows "StatsForApi doStatsRequest V this from to forapi granularity =
           doStatsRequest
             (axleAddress this @ V @ ''keyring/'' @ QueryEscape (Identifier this)
                @ ''/stats?from='' @ fmt_d from @ ''&to='' @ fmt_d to
                @ ''&granularity='' @ granularity @ ''&forkey='' @ QueryEscape forapi)"
  using assms
  by (simp add: StatsForApi_def KeyRingStats_def KeyRingStats_reqAddress_def Let_def)

lemma KeyRings_panics_iff:
  "KeyRings t ord V a from to = Panics \<longleftrightarrow>
     (\<exists>body m. t ''GET'' (KeyRings_reqAddress V a from to) None = Inr body \<and>
        Unmarshal_map body = Inr m \<and> (\<forall>kvs. index m ''results'' \<noteq> Some (JObject kvs)))"
  unfolding KeyRings_def Let_def
  by (auto split: sum.splits option.splits json.splits)

subsection \<open>Unfolding a call on a given response\<close>

lemmas evaluation =
  Save_def Save_reqAddress_def GetKeyRing_def GetKeyRing_reqAddress_def Let_def
  NewKeyRing_def zeroKeyRing_def Marshal_KeyRing_def signed_divide_int_def respond_def
  unreachable_def populateKeyRingFromResponse_def index_def Marshal_map_def decodeMember_def
  equalFold_def foldByte_def decodeMembers_def ParseFloat_1 ParseFloat_9

section \<open>The claims\<close>

subsection \<open>C1: the sub-filter of the statistics request\<close>

text \<open>
  C1 says that \<^verbatim>\<open>StatsForKey\<close> with a non-empty key identifier sends the query parameter
  \<^verbatim>\<open>forkey\<close> and no \<^verbatim>\<open>forapi\<close>, and that \<^verbatim>\<open>StatsForApi\<close> sends \<^verbatim>\<open>forapi\<close> and no
  \<^verbatim>\<open>forkey\<close>. Both methods pass their identifier to \<^verbatim>\<open>KeyRingStats\<close> in the position
  of the other parameter, so the address handed to \<^verbatim>\<open>doStatsRequest\<close> carries the other
  name: the key \<^verbatim>\<open>k1\<close> is sent as \<^verbatim>\<open>forapi=k1\<close> and the API \<^verbatim>\<open>a1\<close> as
  \<^verbatim>\<open>forkey=a1\<close>. (\<open>id\<close> stands for \<^verbatim>\<open>doStatsRequest\<close> and returns the address it is given.)
\<close>

theorem StatsForKey_sends_forapi:
  "StatsForKey id ''v1/'' (NewKeyRing ''http://localhost/'' ''ring'') 0 10 ''k1'' ''minute'' =
     ''http://localhost/v1/keyring/ring/stats?from=0&to=10&granularity=minute&forapi=k1'' \<and>
   StatsForApi id ''v1/'' (NewKeyRing ''http://localhost/'' ''ring'') 0 10 ''a1'' ''minute'' =
     ''http://localhost/v1/keyring/ring/stats?from=0&to=10&granularity=minute&forkey=a1''"
  by code_simp

subsection \<open>C2: a shallow envelope in \<^verbatim>\<open>KeyRings\<close>\<close>

text \<open>
  C2 says that \<^verbatim>\<open>KeyRings\<close> returns an error, and does not stop abnormally, when the body
  is valid JSON whose \<^verbatim>\<open>results\<close> member is absent or is not an object. On the bodies
  \<^verbatim>\<open>{}\<close> and \<^verbatim>\<open>{"results":[]}\<close> the call panics: the error message is built from
  \<^verbatim>\<open>err.Error()\<close> while \<^verbatim>\<open>err\<close> is nil.
\<close>

theorem KeyRings_panics_on_shallow_envelope:
  "KeyRings (respond (Doc (JObject []))) id ''v1/'' ''http://localhost/'' 0 10 = Panics \<and>
   KeyRings (respond (Doc (JObject [(''results'', JArray [])]))) id ''v1/'' ''http://localhost/'' 0 10
     = Panics"
  by code_simp

subsection \<open>C3: \<^verbatim>\<open>Save\<close> on a proxy that is not pending\<close>

text \<open>
  C3 as stated, that \<^verbatim>\<open>Save\<close> on a proxy with \<^verbatim>\<open>createOnSave = false\<close> always returns
  the unsupported-update error whatever its fields hold, fails for a proxy whose
  \<^verbatim>\<open>CreatedAt\<close> is \<^verbatim>\<open>NaN\<close>: the struct is marshalled before the flag is looked at, and
  \<^verbatim>\<open>json.Marshal\<close> refuses the value.
\<close>

theorem Save_unserializable_counterexample:
  "\<not> createOnSave
       ((NewKeyRing ''http://localhost/'' ''ring'')\<lparr>CreatedAt := NaN, createOnSave := False\<rparr>) \<and>
   snd (Save (respond (Doc JNull)) ''v1/'' 0
          ((NewKeyRing ''http://localhost/'' ''ring'')\<lparr>CreatedAt := NaN, createOnSave := False\<rparr>))
     = Some (UnableToMarshalKeyRing (UnsupportedValueError NaN)) \<and>
   snd (Save (respond (Doc JNull)) ''v1/'' 0
          ((NewKeyRing ''http://localhost/'' ''ring'')\<lparr>CreatedAt := NaN, createOnSave := False\<rparr>))
     \<noteq> Some UpdateNotSupported"
  by (simp add: Save_def Let_def NewKeyRing_def zeroKeyRing_def Marshal_KeyRing_def)

text \<open>
  C3, amended: for every \<^verbatim>\<open>KeyRing\<close> whose \<^verbatim>\<open>createOnSave\<close> is false, whatever the
  transport, the clock and the other fields, \<^verbatim>\<open>Save\<close> never succeeds; it returns the
  unsupported-update error when \<^verbatim>\<open>CreatedAt\<close> is finite, and the marshalling error
  when \<^verbatim>\<open>CreatedAt\<close> is \<^verbatim>\<open>NaN\<close> or infinite.
\<close>

theorem Save_not_pending_fails:
  assumes "\<not> createOnSave k"
  shows "snd (Save t V now k) \<noteq> None \<and>
         (isFinite (CreatedAt k) \<longrightarrow> snd (Save t V now k) = Some UpdateNotSupported) \<and>
         (\<not> isFinite (CreatedAt k) \<longrightarrow>
            snd (Save t V now k) =
              Some (UnableToMarshalKeyRing (UnsupportedValueError (CreatedAt k))))"
  using assms
  by (cases "CreatedAt k") (simp_all add: Save_alt Let_def Marshal_KeyRing_def)

text \<open>The amended C3 at a fetched proxy whose \<^verbatim>\<open>CreatedAt\<close> is 7.\<close>

theorem Save_not_pending_fails_witness:
  "\<not> createOnSave
       ((NewKeyRing ''http://localhost/'' ''ring'')\<lparr>CreatedAt := Finite 7, createOnSave := False\<rparr>) \<and>
   snd (Save (respond (Doc JNull)) ''v1/'' 0
          ((NewKeyRing ''http://localhost/'' ''ring'')\<lparr>CreatedAt := Finite 7, createOnSave := False\<rparr>))
     = Some UpdateNotSupported"
  using Save_not_pending_fails
    [of "(NewKeyRing ''http://localhost/'' ''ring'')\<lparr>CreatedAt := Finite 7, createOnSave := False\<rparr>"
        "respond (Doc JNull)" "''v1/''" 0]
  by (simp add: NewKeyRing_def zeroKeyRing_def)

subsection \<open>C4: what a failed \<^verbatim>\<open>Save\<close> leaves behind\<close>

text \<open>
  C4 as stated, that after a \<^verbatim>\<open>Save\<close> that returns an error the fields of the
  \<^verbatim>\<open>KeyRing\<close> are what they were before the call, fails: \<^verbatim>\<open>UpdatedAt\<close> is written
  before anything can fail. A proxy that is not pending and has \<^verbatim>\<open>UpdatedAt = 0\<close> gets
  the unsupported-update error and \<^verbatim>\<open>UpdatedAt = 5\<close> at the clock value of 5 ms. And
  the decoder stores the members it can before it reports the one it cannot: on the
  response \<^verbatim>\<open>{"results":{"createdAt":9,"updatedAt":"soon"}}\<close> a pending proxy gets the
  decoding error and \<^verbatim>\<open>CreatedAt = 9\<close>.
\<close>

theorem Save_error_keeps_UpdatedAt_counterexample:
  "snd (Save (respond (Doc JNull)) ''v1/'' 5000000
          ((NewKeyRing ''http://localhost/'' ''ring'')\<lparr>createOnSave := False\<rparr>))
     = Some UpdateNotSupported \<and>
   UpdatedAt ((NewKeyRing ''http://localhost/'' ''ring'')\<lparr>createOnSave := False\<rparr>) = Finite 0 \<and>
   UpdatedAt (fst (Save (respond (Doc JNull)) ''v1/'' 5000000
          ((NewKeyRing ''http://localhost/'' ''ring'')\<lparr>createOnSave := False\<rparr>))) = Finite 5 \<and>
   Save (respond (Doc (JObject [(''results'',
            JObject [(''createdAt'', JNumber 9), (''updatedAt'', JString ''soon'')])])))
        ''v1/'' 5000000 (NewKeyRing ''http://localhost/'' ''ring'')
     = (\<lparr>Identifier = ''ring'', CreatedAt = Finite 9, UpdatedAt = Finite 5,
         axleAddress = ''http://localhost/'', createOnSave = True\<rparr>,
        Some (UnableToDecodeKeyRing (UnmarshalTypeError ''string'' ''float64''))) \<and>
   CreatedAt (NewKeyRing ''http://localhost/'' ''ring'') = Finite 0"
  by (simp add: evaluation)

text \<open>
  C4, amended: whenever \<^verbatim>\<open>Save\<close> returns an error, \<^verbatim>\<open>Identifier\<close>, \<^verbatim>\<open>axleAddress\<close>
  and \<^verbatim>\<open>createOnSave\<close> are what they were before the call; and unless the error is
  the one for a response whose entity could not be decoded, \<^verbatim>\<open>CreatedAt\<close> is what it
  was and \<^verbatim>\<open>UpdatedAt\<close> holds the time of the call in milliseconds.
\<close>

theorem Save_error_keeps_identity:
  assumes "snd (Save t V now k) = Some e"
  shows "Identifier (fst (Save t V now k)) = Identifier k \<and>
         axleAddress (fst (Save t V now k)) = axleAddress k \<and>
         createOnSave (fst (Save t V now k)) = createOnSave k \<and>
         ((\<forall>j. e \<noteq> UnableToDecodeKeyRing j) \<longrightarrow>
            CreatedAt (fst (Save t V now k)) = CreatedAt k \<and>
            UpdatedAt (fst (Save t V now k)) = Finite (of_int (now sdiv (1000 * 1000))))"
  using assms Save_error_frame [of t V now k e] Save_error_timestamps [of t V now k e]
  by blast

text \<open>The amended C4 at a pending proxy whose server is down.\<close>

theorem Save_error_keeps_identity_witness:
  "snd (Save (unreachable ''down'') ''v1/'' 5000000 (NewKeyRing ''http://localhost/'' ''ring''))
     = Some (TransportError ''down'') \<and>
   Identifier (fst (Save (unreachable ''down'') ''v1/'' 5000000
      (NewKeyRing ''http://localhost/'' ''ring''))) = ''ring'' \<and>
   axleAddress (fst (Save (unreachable ''down'') ''v1/'' 5000000
      (NewKeyRing ''http://localhost/'' ''ring''))) = ''http://localhost/'' \<and>
   createOnSave (fst (Save (unreachable ''down'') ''v1/'' 5000000
      (NewKeyRing ''http://localhost/'' ''ring''))) \<and>
   CreatedAt (fst (Save (unreachable ''down'') ''v1/'' 5000000
      (NewKeyRing ''http://localhost/'' ''ring''))) = Finite 0 \<and>
   UpdatedAt (fst (Save (unreachable ''down'') ''v1/'' 5000000
      (NewKeyRing ''http://localhost/'' ''ring''))) = Finite 5"
proof -
  have err: "snd (Save (unreachable ''down'') ''v1/'' 5000000
      (NewKeyRing ''http://localhost/'' ''ring'')) = Some (TransportError ''down'')"
    by (simp add: Save_alt Let_def NewKeyRing_def zeroKeyRing_def Marshal_KeyRing_def
          unreachable_def signed_divide_int_def)
  from Save_error_keeps_identity [OF err] err show ?thesis
    by (simp add: NewKeyRing_def zeroKeyRing_def signed_divide_int_def)
qed

subsection \<open>C5: identifiers in request addresses\<close>

text \<open>
  C5 as stated fails at its own example: the identifier \<^verbatim>\<open>a b/c\<close> gives the path
  segment \<^verbatim>\<open>a+b%2Fc\<close>, not \<^verbatim>\<open>a%20b%2Fc\<close>. The addresses are built with
  \<^verbatim>\<open>url.QueryEscape\<close>, which writes a space as \<^verbatim>\<open>+\<close>.
\<close>

theorem QueryEscape_space_counterexample:
  "GetKeyRing_reqAddress ''v1/'' ''http://localhost/'' ''a b/c'' =
     ''http://localhost/v1/keyring/a+b%2Fc'' \<and>
   GetKeyRing_reqAddress ''v1/'' ''http://localhost/'' ''a b/c'' \<noteq>
     ''http://localhost/v1/keyring/a%20b%2Fc'' \<and>
   QueryEscape ''a b/c'' \<noteq> ''a%20b%2Fc''"
  by code_simp

text \<open>
  C5, amended: the request address of \<^verbatim>\<open>Save\<close>, \<^verbatim>\<open>GetKeyRing\<close>, \<^verbatim>\<open>DeleteKeyRing\<close>
  and of the link, unlink, list and statistics calls holds the identifier encoded by
  \<^verbatim>\<open>url.QueryEscape\<close> right after \<^verbatim>\<open>keyring/\<close>: every byte of the identifier, wherever
  it stands, is kept if it is a letter, a digit or one of \<^verbatim>\<open>-_.~\<close>, becomes \<^verbatim>\<open>+\<close> if it
  is a space, and is percent-encoded with two upper-case hexadecimal digits otherwise,
  so that no other byte than letters, digits and \<^verbatim>\<open>-_.~%+\<close> reaches the segment; in
  particular \<^verbatim>\<open>a b/c\<close> yields \<^verbatim>\<open>a+b%2Fc\<close>.
\<close>

theorem request_urls_escape_identifier:
  "Save_reqAddress V k = axleAddress k @ V @ ''keyring/'' @ QueryEscape (Identifier k) \<and>
   GetKeyRing_reqAddress V a i = a @ V @ ''keyring/'' @ QueryEscape i \<and>
   DeleteKeyRing_reqAddress V a i = a @ V @ ''keyring/'' @ QueryEscape i \<and>
   KeyRingLinkKey_reqAddress V a i j =
     a @ V @ ''keyring/'' @ QueryEscape i @ ''/linkkey/'' @ QueryEscape j \<and>
   KeyRingUnlinkKey_reqAddress V a i j =
     a @ V @ ''keyring/'' @ QueryEscape i @ ''/unlinkkey/'' @ QueryEscape j \<and>
   (\<exists>query. KeyRingKeys_reqAddress V a i from to =
     a @ V @ ''keyring/'' @ QueryEscape i @ ''/keys?'' @ query) \<and>
   (\<exists>query. KeyRingStats_reqAddress V a i from to forapi forkey g =
     a @ V @ ''keyring/'' @ QueryEscape i @ ''/stats?'' @ query) \<and>
   QueryEscape (s @ c # r) =
     QueryEscape s @
     (if c = CHR '' '' then ''+''
      else if isAlnum c \<or> c \<in> set ''-_.~'' then [c]
      else [CHR ''%'', upperhex ! (of_char c div 16), upperhex ! (of_char c mod 16)])
     @ QueryEscape r \<and>
   (\<forall>b \<in> set (QueryEscape i). isAlnum b \<or> b \<in> set ''-_.~%+'') \<and>
   QueryEscape ''a b/c'' = ''a+b%2Fc''"
proof -
  have keys: "\<exists>query. KeyRingKeys_reqAddress V a i from to =
     a @ V @ ''keyring/'' @ QueryEscape i @ ''/keys?'' @ query"
    by (simp add: KeyRingKeys_reqAddress_def)
  have stats: "\<exists>query. KeyRingStats_reqAddress V a i from to forapi forkey g =
     a @ V @ ''keyring/'' @ QueryEscape i @ ''/stats?'' @ query"
    by (simp add: KeyRingStats_reqAddress_def Let_def)
  have at: "QueryEscape (s @ c # r) =
     QueryEscape s @
     (if c = CHR '' '' then ''+''
      else if isAlnum c \<or> c \<in> set ''-_.~'' then [c]
      else [CHR ''%'', upperhex ! (of_char c div 16), upperhex ! (of_char c mod 16)])
     @ QueryEscape r"
    by (simp add: QueryEscape_at shouldEscape_def)
  have bytes: "\<forall>b \<in> set (QueryEscape i). isAlnum b \<or> b \<in> set ''-_.~%+''"
    using QueryEscape_bytes [of _ i] by (auto simp: shouldEscape_def)
  have ex: "QueryEscape ''a b/c'' = ''a+b%2Fc''"
    by code_simp
  show ?thesis
    using keys stats at bytes ex
    by (simp only: Save_reqAddress_def GetKeyRing_reqAddress_def DeleteKeyRing_reqAddress_def
          KeyRingLinkKey_reqAddress_def KeyRingUnlinkKey_reqAddress_def simp_thms)
qed

text \<open>
  The amended C5 at the identifier \<^verbatim>\<open>a b/c\<close>, with the byte \<^verbatim>\<open>/\<close> after \<^verbatim>\<open>a b\<close> and
  the byte \<^verbatim>\<open>%\<close> of the encoded segment.
\<close>

theorem request_urls_escape_identifier_witness:
  "Save_reqAddress ''v1/'' (NewKeyRing ''http://localhost/'' ''a b/c'') =
     ''http://localhost/v1/keyring/a+b%2Fc'' \<and>
   DeleteKeyRing_reqAddress ''v1/'' ''http://localhost/'' ''a b/c'' =
     ''http://localhost/v1/keyring/a+b%2Fc'' \<and>
   CHR ''%'' \<in> set (QueryEscape ''a b/c'') \<and>
   (isAlnum (CHR ''%'') \<or> CHR ''%'' \<in> set ''-_.~%+'')"
proof -
  note th = request_urls_escape_identifier
    [of "''v1/''" "NewKeyRing ''http://localhost/'' ''a b/c''" "''http://localhost/''" "''a b/c''"
        "''key''" 0 10 "[]" "[]" "''minute''" "''a b''" "CHR ''/''" "''c''"]
  have ex: "QueryEscape ''a b/c'' = ''a+b%2Fc''"
    by (rule th [THEN conjunct2, THEN conjunct2, THEN conjunct2, THEN conjunct2, THEN conjunct2,
          THEN conjunct2, THEN conjunct2, THEN conjunct2, THEN conjunct2])
  have bytes: "\<forall>b \<in> set (QueryEscape ''a b/c''). isAlnum b \<or> b \<in> set ''-_.~%+''"
    by (rule th [THEN conjunct2, THEN conjunct2, THEN conjunct2, THEN conjunct2, THEN conjunct2,
          THEN conjunct2, THEN conjunct2, THEN conjunct2, THEN conjunct1])
  have sv: "Save_reqAddress ''v1/'' (NewKeyRing ''http://localhost/'' ''a b/c'') =
      axleAddress (NewKeyRing ''http://localhost/'' ''a b/c'') @ ''v1/'' @ ''keyring/'' @
      QueryEscape (Identifier (NewKeyRing ''http://localhost/'' ''a b/c''))"
    by (rule th [THEN conjunct1])
  have del: "DeleteKeyRing_reqAddress ''v1/'' ''http://localhost/'' ''a b/c'' =
      ''http://localhost/'' @ ''v1/'' @ ''keyring/'' @ QueryEscape ''a b/c''"
    by (rule th [THEN conjunct2, THEN conjunct2, THEN conjunct1])
  have mem: "CHR ''%'' \<in> set (QueryEscape ''a b/c'')"
    by (simp only: ex) simp
  from bytes mem have safe: "isAlnum (CHR ''%'') \<or> CHR ''%'' \<in> set ''-_.~%+''" ..
  have sv': "Save_reqAddress ''v1/'' (NewKeyRing ''http://localhost/'' ''a b/c'') =
      ''http://localhost/v1/keyring/a+b%2Fc''"
    by (simp only: sv NewKeyRing_fields ex) simp
  have del': "DeleteKeyRing_reqAddress ''v1/'' ''http://localhost/'' ''a b/c'' =
      ''http://localhost/v1/keyring/a+b%2Fc''"
    by (simp only: del ex) simp
  from sv' del' mem safe show ?thesis by (intro conjI)
qed

subsection \<open>C6: the pending flag\<close>

text \<open>
  C6: \<^verbatim>\<open>NewKeyRing\<close> returns a proxy with \<^verbatim>\<open>createOnSave = true\<close>; a proxy returned by
  \<^verbatim>\<open>GetKeyRing\<close>, and every proxy in a list returned by \<^verbatim>\<open>KeyRings\<close>, has
  \<^verbatim>\<open>createOnSave = false\<close>; and after a \<^verbatim>\<open>Save\<close> on a pending proxy that returns nil,
  the proxy has \<^verbatim>\<open>createOnSave = false\<close>.
\<close>

theorem pendingCreate_lifecycle:
  "createOnSave (NewKeyRing a i) \<and>
   (\<forall>k. GetKeyRing t V a i = Inr k \<longrightarrow> \<not> createOnSave k) \<and>
   (\<forall>out. KeyRings t ord V a from to = Returns (Inr out) \<longrightarrow> (\<forall>k \<in> set out. \<not> createOnSave k)) \<and>
   (createOnSave k0 \<and> snd (Save t V now k0) = None \<longrightarrow> \<not> createOnSave (fst (Save t V now k0)))"
proof -
  have new: "createOnSave (NewKeyRing a i)" by (simp add: NewKeyRing_fields)
  have got: "\<forall>k. GetKeyRing t V a i = Inr k \<longrightarrow> \<not> createOnSave k"
    by (blast dest: GetKeyRing_result(1))
  have listed: "\<forall>out. KeyRings t ord V a from to = Returns (Inr out) \<longrightarrow>
      (\<forall>k \<in> set out. \<not> createOnSave k)"
    by (blast dest: KeyRings_returns KeyRings_range_not_pending)
  have saved: "createOnSave k0 \<and> snd (Save t V now k0) = None \<longrightarrow>
      \<not> createOnSave (fst (Save t V now k0))"
    using Save_ok_not_pending [of t V now k0] by blast
  from new got listed saved show ?thesis by blast
qed

text \<open>
  C6 at a server that answers \<^verbatim>\<open>{"results":{"createdAt":1}}\<close> to the fetch and to the
  create, and \<^verbatim>\<open>{"results":{"k1":{}}}\<close> to the listing: all three calls succeed.
\<close>

theorem pendingCreate_lifecycle_witness:
  "createOnSave (NewKeyRing ''http://localhost/'' ''ring'') \<and>
   GetKeyRing (respond (Doc (JObject [(''results'', JObject [(''createdAt'', JNumber 1)])])))
       ''v1/'' ''http://localhost/'' ''ring''
     = Inr \<lparr>Identifier = ''ring'', CreatedAt = Finite 1, UpdatedAt = Finite 0,
            axleAddress = ''http://localhost/'', createOnSave = False\<rparr> \<and>
   KeyRings (respond (Doc (JObject [(''results'', JObject [(''k1'', JObject [])])]))) id
       ''v1/'' ''http://localhost/'' 0 10
     = Returns (Inr [\<lparr>Identifier = ''k1'', CreatedAt = Finite 0, UpdatedAt = Finite 0,
            axleAddress = ''http://localhost/'', createOnSave = False\<rparr>]) \<and>
   snd (Save (respond (Doc (JObject [(''results'', JObject [(''createdAt'', JNumber 1)])])))
       ''v1/'' 5000000 (NewKeyRing ''http://localhost/'' ''ring'')) = None \<and>
   \<not> createOnSave (fst (Save (respond (Doc (JObject [(''results'', JObject [(''createdAt'', JNumber 1)])])))
       ''v1/'' 5000000 (NewKeyRing ''http://localhost/'' ''ring'')))"
proof -
  have g: "GetKeyRing (respond (Doc (JObject [(''results'', JObject [(''createdAt'', JNumber 1)])])))
       ''v1/'' ''http://localhost/'' ''ring''
     = Inr \<lparr>Identifier = ''ring'', CreatedAt = Finite 1, UpdatedAt = Finite 0,
            axleAddress = ''http://localhost/'', createOnSave = False\<rparr>"
    by (simp add: evaluation)
  have l: "KeyRings (respond (Doc (JObject [(''results'', JObject [(''k1'', JObject [])])]))) id
       ''v1/'' ''http://localhost/'' 0 10
     = Returns (Inr [\<lparr>Identifier = ''k1'', CreatedAt = Finite 0, UpdatedAt = Finite 0,
            axleAddress = ''http://localhost/'', createOnSave = False\<rparr>])"
    by code_simp
  have s: "snd (Save (respond (Doc (JObject [(''results'', JObject [(''createdAt'', JNumber 1)])])))
       ''v1/'' 5000000 (NewKeyRing ''http://localhost/'' ''ring'')) = None"
    by (simp add: evaluation)
  have n: "createOnSave (NewKeyRing ''http://localhost/'' ''ring'')"
    by (simp add: NewKeyRing_fields)
  from pendingCreate_lifecycle
    [of "''http://localhost/''" "''ring''"
        "respond (Doc (JObject [(''results'', JObject [(''createdAt'', JNumber 1)])]))" "''v1/''"
        id 0 10 "NewKeyRing ''http://localhost/'' ''ring''" 5000000]
    g l s n
  show ?thesis by simp
qed

subsection \<open>C7: unwrapping the envelope\<close>

text \<open>
  C7 as stated, that unwrapping \<^verbatim>\<open>{"results":{"identifier":"x","createdAt":1}}\<close> at
  \<^verbatim>\<open>["results"]\<close> yields an entity whose identifier is \<^verbatim>\<open>x\<close>, fails: \<^verbatim>\<open>Identifier\<close>
  is tagged \<^verbatim>\<open>json:"-"\<close> and is not read from the body. A target constructed with the
  identifier \<^verbatim>\<open>y\<close> still has the identifier \<^verbatim>\<open>y\<close> afterwards.
\<close>

theorem populate_ignores_identifier_counterexample:
  "Identifier (fst (populateKeyRingFromResponse (NewKeyRing ''http://localhost/'' ''y'')
     (Doc (JObject [(''results'', JObject [(''identifier'', JString ''x''), (''createdAt'', JNumber 1)])]))
     [''results''])) = ''y'' \<and>
   Identifier (fst (populateKeyRingFromResponse (NewKeyRing ''http://localhost/'' ''y'')
     (Doc (JObject [(''results'', JObject [(''identifier'', JString ''x''), (''createdAt'', JNumber 1)])]))
     [''results''])) \<noteq> ''x''"
  by (simp add: populate_frame NewKeyRing_fields)

text \<open>
  C7, amended: for every target, \<^verbatim>\<open>populateKeyRingFromResponse\<close> at \<^verbatim>\<open>["results"]\<close>
  on the body \<^verbatim>\<open>{"results":{"identifier":"x","createdAt":1}}\<close> returns nil and sets
  \<^verbatim>\<open>CreatedAt\<close> to 1, every other field of the target, \<^verbatim>\<open>Identifier\<close> among them,
  being as before; on \<^verbatim>\<open>{"other":{}}\<close> it fails with the missing-key error for
  \<^verbatim>\<open>results\<close> and leaves the target as it is; and whenever the walk along the key path
  reaches a key whose value is there but is not a JSON object, it fails with the type
  error for that key (\<^verbatim>\<open>key %s did not contain map\<close>) and leaves the target as it is.
\<close>

theorem envelope_unwrap:
  "populateKeyRingFromResponse k
     (Doc (JObject [(''results'', JObject [(''identifier'', JString ''x''), (''createdAt'', JNumber 1)])]))
     [''results''] = (k\<lparr>CreatedAt := Finite 1\<rparr>, False, None) \<and>
   populateKeyRingFromResponse k (Doc (JObject [(''other'', JObject [])])) [''results''] =
     (k, False, Some (MissingExpectedKey ''results'')) \<and>
   (\<forall>m m' v. Unmarshal_map body = Inr m \<and> descend m pre = Inr m' \<and> index m' key = Some v \<and>
       (\<forall>kvs. v \<noteq> JObject kvs) \<longrightarrow>
       populateKeyRingFromResponse k body (pre @ key # post) =
         (k, False, Some (KeyDidNotContainMap key)))"
proof -
  have missing: "populateKeyRingFromResponse k (Doc (JObject [(''other'', JObject [])])) [''results''] =
     (k, False, Some (MissingExpectedKey ''results''))"
    by (simp add: populateKeyRingFromResponse_def index_def decodeMembers_def)
  from populate_sample [of k] missing populate_type_error [of body _ pre _ key _ k post]
  show ?thesis by blast
qed

text \<open>
  The amended C7 at a target with identifier \<^verbatim>\<open>y\<close>, and at the body
  \<^verbatim>\<open>{"results":{"new":[1]}}\<close> with the key path \<^verbatim>\<open>["results","new"]\<close>.
\<close>

theorem envelope_unwrap_witness:
  "populateKeyRingFromResponse (NewKeyRing ''http://localhost/'' ''y'')
     (Doc (JObject [(''results'', JObject [(''identifier'', JString ''x''), (''createdAt'', JNumber 1)])]))
     [''results''] =
     (\<lparr>Identifier = ''y'', CreatedAt = Finite 1, UpdatedAt = Finite 0,
       axleAddress = ''http://localhost/'', createOnSave = True\<rparr>, False, None) \<and>
   populateKeyRingFromResponse (NewKeyRing ''http://localhost/'' ''y'')
     (Doc (JObject [(''results'', JObject [(''new'', JArray [JNumber 1])])]))
     ([''results''] @ ''new'' # []) =
     (NewKeyRing ''http://localhost/'' ''y'', False, Some (KeyDidNotContainMap ''new''))"
proof -
  note th = envelope_unwrap
    [of "NewKeyRing ''http://localhost/'' ''y''"
        "Doc (JObject [(''results'', JObject [(''new'', JArray [JNumber 1])])])"
        "[''results'']" "''new''" "[]"]
  have um: "Unmarshal_map (Doc (JObject [(''results'', JObject [(''new'', JArray [JNumber 1])])])) =
      Inr (Some [(''results'', JObject [(''new'', JArray [JNumber 1])])])"
    by (simp add: decodeMembers_def ParseFloat_1)
  have ds: "descend (Some [(''results'', JObject [(''new'', JArray [JNumber 1])])]) [''results''] =
      Inr (Some [(''new'', JArray [JNumber 1])])"
    by (simp add: index_def)
  have ix: "index (Some [(''new'', JArray [JNumber 1])]) ''new'' = Some (JArray [JNumber 1])"
    by (simp add: index_def)
  have nobj: "\<forall>kvs. JArray [JNumber 1] \<noteq> JObject kvs" by simp
  from th um ds ix nobj
  have b: "populateKeyRingFromResponse (NewKeyRing ''http://localhost/'' ''y'')
     (Doc (JObject [(''results'', JObject [(''new'', JArray [JNumber 1])])]))
     ([''results''] @ ''new'' # []) =
     (NewKeyRing ''http://localhost/'' ''y'', False, Some (KeyDidNotContainMap ''new''))"
    by blast
  from th have a: "populateKeyRingFromResponse (NewKeyRing ''http://localhost/'' ''y'')
     (Doc (JObject [(''results'', JObject [(''identifier'', JString ''x''), (''createdAt'', JNumber 1)])]))
     [''results''] = ((NewKeyRing ''http://localhost/'' ''y'')\<lparr>CreatedAt := Finite 1\<rparr>, False, None)"
    by (rule conjunct1)
  have rec: "(NewKeyRing ''http://localhost/'' ''y'')\<lparr>CreatedAt := Finite 1\<rparr> =
     \<lparr>Identifier = ''y'', CreatedAt = Finite 1, UpdatedAt = Finite 0,
       axleAddress = ''http://localhost/'', createOnSave = True\<rparr>"
    by (simp add: NewKeyRing_def zeroKeyRing_def)
  from a b show ?thesis unfolding rec by (intro conjI)
qed

subsection \<open>C8: the acknowledgement of a delete\<close>

text \<open>
  C8 as stated, that \<^verbatim>\<open>DeleteKeyRing\<close> returns nil exactly when the body is valid JSON
  whose top-level \<^verbatim>\<open>results\<close> is the boolean \<^verbatim>\<open>true\<close>, fails in the direction from the
  body to the success: \<^verbatim>\<open>{"results":true,"x":1e400}\<close> is valid JSON and its \<^verbatim>\<open>results\<close>
  is \<^verbatim>\<open>true\<close>, but \<^verbatim>\<open>json.Unmarshal\<close> reports the number that no \<^verbatim>\<open>float64\<close> holds,
  and \<^verbatim>\<open>DeleteKeyRing\<close> returns that error.
\<close>

theorem DeleteKeyRing_number_out_of_range_counterexample:
  "map_of (rev [(''results'', JBool True), (''x'', JNumber (10 ^ 400))]) ''results''
     = Some (JBool True) \<and>
   DeleteKeyRing (respond (Doc (JObject [(''results'', JBool True), (''x'', JNumber (10 ^ 400))])))
       ''v1/'' ''http://localhost/'' ''ring''
     = Some (UnableToUnmarshalResponseFrom ''http://localhost/v1/keyring/ring''
               (UnmarshalTypeError ''number'' ''float64''))"
proof -
  let ?kvs = "[(''results'', JBool True), (''x'', JNumber (10 ^ 400))]"
  have url: "DeleteKeyRing_reqAddress ''v1/'' ''http://localhost/'' ''ring'' =
      ''http://localhost/v1/keyring/ring''"
    by code_simp
  have members: "decodeMembers ?kvs = None"
    by (simp only: decodeMembers_Cons decodeMembers_Nil decodeValue.simps ParseFloat_1e400
          option.case option.map)
  have t: "respond (Doc (JObject ?kvs)) ''DELETE''
      (DeleteKeyRing_reqAddress ''v1/'' ''http://localhost/'' ''ring'') None = Inr (Doc (JObject ?kvs))"
    by (simp only: respond_def)
  have "DeleteKeyRing (respond (Doc (JObject ?kvs))) ''v1/'' ''http://localhost/'' ''ring'' =
      Some (UnableToUnmarshalResponseFrom
              (DeleteKeyRing_reqAddress ''v1/'' ''http://localhost/'' ''ring'')
              (UnmarshalTypeError ''number'' ''float64''))"
    by (simp only: DeleteKeyRing_object
          [of "respond (Doc (JObject ?kvs))" "''v1/''" "''http://localhost/''" "''ring''" ?kvs, OF t]
          members option.case)
  then have del: "DeleteKeyRing (respond (Doc (JObject ?kvs))) ''v1/'' ''http://localhost/'' ''ring'' =
      Some (UnableToUnmarshalResponseFrom ''http://localhost/v1/keyring/ring''
              (UnmarshalTypeError ''number'' ''float64''))"
    by (simp only: url)
  have res: "map_of (rev ?kvs) ''results'' = Some (JBool True)"
    by simp
  from res del show ?thesis by (rule conjI)
qed

text \<open>
  C8, amended: \<^verbatim>\<open>DeleteKeyRing\<close> returns nil exactly when the transport returns a body
  that is a JSON object which \<^verbatim>\<open>json.Unmarshal\<close> reads without error (every number in
  it, at any depth, is within the range of \<^verbatim>\<open>float64\<close>: \<open>decodeMembers\<close> succeeds) and
  whose \<^verbatim>\<open>results\<close> member (the last one of that name) is the boolean \<^verbatim>\<open>true\<close>. On an
  object body it returns the unmarshalling error when a number is out of range, and
  otherwise the missing-response error when \<^verbatim>\<open>results\<close> is absent, the failed-delete
  error when it is \<^verbatim>\<open>false\<close>, and the extraction error when it is not a boolean.
\<close>

theorem DeleteKeyRing_succeeds_iff:
  "(DeleteKeyRing t V a i = None \<longleftrightarrow>
      (\<exists>kvs. t ''DELETE'' (a @ V @ ''keyring/'' @ QueryEscape i) None = Inr (Doc (JObject kvs)) \<and>
             decodeMembers kvs \<noteq> None \<and> map_of (rev kvs) ''results'' = Some (JBool True))) \<and>
   (\<forall>kvs. t ''DELETE'' (a @ V @ ''keyring/'' @ QueryEscape i) None = Inr (Doc (JObject kvs)) \<longrightarrow>
      (decodeMembers kvs = None \<longrightarrow>
         DeleteKeyRing t V a i =
           Some (UnableToUnmarshalResponseFrom (a @ V @ ''keyring/'' @ QueryEscape i)
                   (UnmarshalTypeError ''number'' ''float64''))) \<and>
      (decodeMembers kvs \<noteq> None \<longrightarrow>
         (map_of (rev kvs) ''results'' = None \<longrightarrow>
            DeleteKeyRing t V a i =
              Some (MissingResponseFrom (a @ V @ ''keyring/'' @ QueryEscape i))) \<and>
         (map_of (rev kvs) ''results'' = Some (JBool False) \<longrightarrow>
            DeleteKeyRing t V a i = Some (DeleteFailedAt (a @ V @ ''keyring/'' @ QueryEscape i))) \<and>
         (\<forall>v. map_of (rev kvs) ''results'' = Some v \<longrightarrow> (\<forall>b. v \<noteq> JBool b) \<longrightarrow>
            DeleteKeyRing t V a i =
              Some (UnableToExtractResponseObjectFrom (a @ V @ ''keyring/'' @ QueryEscape i)))))"
proof -
  have url: "DeleteKeyRing_reqAddress V a i = a @ V @ ''keyring/'' @ QueryEscape i"
    by (simp add: DeleteKeyRing_reqAddress_def)
  have errors: "DeleteKeyRing t V a i =
      (case decodeMembers kvs of
         None \<Rightarrow>
           Some (UnableToUnmarshalResponseFrom (a @ V @ ''keyring/'' @ QueryEscape i)
                   (UnmarshalTypeError ''number'' ''float64''))
       | Some members \<Rightarrow>
           (case map_of (rev kvs) ''results'' of
              None \<Rightarrow> Some (MissingResponseFrom (a @ V @ ''keyring/'' @ QueryEscape i))
            | Some v \<Rightarrow>
                if v = JBool True then None
                else if v = JBool False
                then Some (DeleteFailedAt (a @ V @ ''keyring/'' @ QueryEscape i))
                else Some (UnableToExtractResponseObjectFrom (a @ V @ ''keyring/'' @ QueryEscape i))))"
    if "t ''DELETE'' (a @ V @ ''keyring/'' @ QueryEscape i) None = Inr (Doc (JObject kvs))" for kvs
    using DeleteKeyRing_object [of t V a i kvs] that unfolding url by simp
  have iff: "DeleteKeyRing t V a i = None \<longleftrightarrow>
      (\<exists>kvs. t ''DELETE'' (a @ V @ ''keyring/'' @ QueryEscape i) None = Inr (Doc (JObject kvs)) \<and>
             decodeMembers kvs \<noteq> None \<and> map_of (rev kvs) ''results'' = Some (JBool True))"
    using DeleteKeyRing_nil_iff [of t V a i] unfolding url .
  have rest: "\<forall>kvs. t ''DELETE'' (a @ V @ ''keyring/'' @ QueryEscape i) None = Inr (Doc (JObject kvs)) \<longrightarrow>
      (decodeMembers kvs = None \<longrightarrow>
         DeleteKeyRing t V a i =
           Some (UnableToUnmarshalResponseFrom (a @ V @ ''keyring/'' @ QueryEscape i)
                   (UnmarshalTypeError ''number'' ''float64''))) \<and>
      (decodeMembers kvs \<noteq> None \<longrightarrow>
         (map_of (rev kvs) ''results'' = None \<longrightarrow>
            DeleteKeyRing t V a i =
              Some (MissingResponseFrom (a @ V @ ''keyring/'' @ QueryEscape i))) \<and>
         (map_of (rev kvs) ''results'' = Some (JBool False) \<longrightarrow>
            DeleteKeyRing t V a i = Some (DeleteFailedAt (a @ V @ ''keyring/'' @ QueryEscape i))) \<and>
         (\<forall>v. map_of (rev kvs) ''results'' = Some v \<longrightarrow> (\<forall>b. v \<noteq> JBool b) \<longrightarrow>
            DeleteKeyRing t V a i =
              Some (UnableToExtractResponseObjectFrom (a @ V @ ''keyring/'' @ QueryEscape i))))"
  proof (rule allI, rule impI)
    fix kvs
    assume "t ''DELETE'' (a @ V @ ''keyring/'' @ QueryEscape i) None = Inr (Doc (JObject kvs))"
    note e = errors [OF this]
    show "(decodeMembers kvs = None \<longrightarrow>
         DeleteKeyRing t V a i =
           Some (UnableToUnmarshalResponseFrom (a @ V @ ''keyring/'' @ QueryEscape i)
                   (UnmarshalTypeError ''number'' ''float64''))) \<and>
      (decodeMembers kvs \<noteq> None \<longrightarrow>
         (map_of (rev kvs) ''results'' = None \<longrightarrow>
            DeleteKeyRing t V a i =
              Some (MissingResponseFrom (a @ V @ ''keyring/'' @ QueryEscape i))) \<and>
         (map_of (rev kvs) ''results'' = Some (JBool False) \<longrightarrow>
            DeleteKeyRing t V a i = Some (DeleteFailedAt (a @ V @ ''keyring/'' @ QueryEscape i))) \<and>
         (\<forall>v. map_of (rev kvs) ''results'' = Some v \<longrightarrow> (\<forall>b. v \<noteq> JBool b) \<longrightarrow>
            DeleteKeyRing t V a i =
              Some (UnableToExtractResponseObjectFrom (a @ V @ ''keyring/'' @ QueryEscape i))))"
      unfolding e by (auto split: option.splits)
  qed
  from iff rest show ?thesis by (rule conjI)
qed

text \<open>
  The amended C8 at the bodies \<^verbatim>\<open>{"results":true}\<close>, \<^verbatim>\<open>{"results":false}\<close>,
  \<^verbatim>\<open>{"results":"true"}\<close> and \<^verbatim>\<open>{}\<close>.
\<close>

theorem DeleteKeyRing_succeeds_iff_witness:
  "DeleteKeyRing (respond (Doc (JObject [(''results'', JBool True)]))) ''v1/'' ''http://localhost/'' ''ring''
     = None \<and>
   DeleteKeyRing (respond (Doc (JObject [(''results'', JBool False)]))) ''v1/'' ''http://localhost/'' ''ring''
     = Some (DeleteFailedAt ''http://localhost/v1/keyring/ring'') \<and>
   DeleteKeyRing (respond (Doc (JObject [(''results'', JString ''true'')]))) ''v1/'' ''http://localhost/'' ''ring''
     = Some (UnableToExtractResponseObjectFrom ''http://localhost/v1/keyring/ring'') \<and>
   DeleteKeyRing (respond (Doc (JObject []))) ''v1/'' ''http://localhost/'' ''ring''
     = Some (MissingResponseFrom ''http://localhost/v1/keyring/ring'')"
proof -
  have url: "''http://localhost/'' @ ''v1/'' @ ''keyring/'' @ QueryEscape ''ring'' =
      ''http://localhost/v1/keyring/ring''"
    by code_simp
  have ok: "DeleteKeyRing (respond (Doc (JObject [(''results'', JBool True)])))
      ''v1/'' ''http://localhost/'' ''ring'' = None"
    using DeleteKeyRing_succeeds_iff
      [of "respond (Doc (JObject [(''results'', JBool True)]))" "''v1/''" "''http://localhost/''" "''ring''"]
    by (simp add: respond_def decodeMembers_def)
  have no: "DeleteKeyRing (respond (Doc (JObject [(''results'', JBool False)])))
      ''v1/'' ''http://localhost/'' ''ring'' = Some (DeleteFailedAt ''http://localhost/v1/keyring/ring'')"
    using DeleteKeyRing_succeeds_iff
      [of "respond (Doc (JObject [(''results'', JBool False)]))" "''v1/''" "''http://localhost/''" "''ring''"]
    unfolding url by (simp add: respond_def decodeMembers_def)
  have str: "DeleteKeyRing (respond (Doc (JObject [(''results'', JString ''true'')])))
      ''v1/'' ''http://localhost/'' ''ring'' =
      Some (UnableToExtractResponseObjectFrom ''http://localhost/v1/keyring/ring'')"
    using DeleteKeyRing_succeeds_iff
      [of "respond (Doc (JObject [(''results'', JString ''true'')]))" "''v1/''" "''http://localhost/''" "''ring''"]
    unfolding url by (simp add: respond_def decodeMembers_def)
  have none: "DeleteKeyRing (respond (Doc (JObject [])))
      ''v1/'' ''http://localhost/'' ''ring'' = Some (MissingResponseFrom ''http://localhost/v1/keyring/ring'')"
    using DeleteKeyRing_succeeds_iff
      [of "respond (Doc (JObject []))" "''v1/''" "''http://localhost/''" "''ring''"]
    unfolding url by (simp add: respond_def decodeMembers_def)
  from ok no str none show ?thesis by (intro conjI)
qed

subsection \<open>C9: encoding an entity and decoding it again\<close>

text \<open>
  C9 as stated, that encoding any \<^verbatim>\<open>KeyRing\<close> and decoding the bytes into a fresh
  \<^verbatim>\<open>KeyRing\<close> gives back the identifier and the timestamps, fails twice.
  \<^verbatim>\<open>Identifier\<close> is tagged \<^verbatim>\<open>json:"-"\<close>: it is neither written nor read, and the
  decoded entity of a \<^verbatim>\<open>KeyRing\<close> named \<^verbatim>\<open>x\<close> has the empty identifier. And a
  \<^verbatim>\<open>KeyRing\<close> whose timestamp is \<^verbatim>\<open>NaN\<close> does not encode at all.
\<close>

theorem roundtrip_loses_identifier_counterexample:
  "Marshal_KeyRing ((NewKeyRing ''http://localhost/'' ''x'')\<lparr>CreatedAt := Finite 1, UpdatedAt := Finite 2\<rparr>)
     = Inr (Doc (JObject [(''createdAt'', JNumber 1), (''updatedAt'', JNumber 2)])) \<and>
   Identifier (fst (Unmarshal_KeyRing
       (Doc (JObject [(''createdAt'', JNumber 1), (''updatedAt'', JNumber 2)])) zeroKeyRing)) = [] \<and>
   Identifier ((NewKeyRing ''http://localhost/'' ''x'')\<lparr>CreatedAt := Finite 1, UpdatedAt := Finite 2\<rparr>)
     = ''x'' \<and>
   Marshal_KeyRing ((NewKeyRing ''http://localhost/'' ''x'')\<lparr>CreatedAt := NaN\<rparr>)
     = Inl (UnsupportedValueError NaN)"
  by (simp add: Marshal_KeyRing_def NewKeyRing_def zeroKeyRing_def decode_createdAt decode_updatedAt)

text \<open>
  C9, amended: every \<^verbatim>\<open>KeyRing\<close> whose two timestamps are finite encodes, and decoding
  the bytes into a fresh \<^verbatim>\<open>KeyRing\<close> (one whose timestamps are zero) succeeds and
  yields an entity whose \<^verbatim>\<open>CreatedAt\<close> and \<^verbatim>\<open>UpdatedAt\<close> are those of the original;
  its \<^verbatim>\<open>Identifier\<close>, \<^verbatim>\<open>axleAddress\<close> and \<^verbatim>\<open>createOnSave\<close> are those of the fresh
  \<^verbatim>\<open>KeyRing\<close>, not of the original.
\<close>

theorem timestamps_roundtrip:
  assumes "isFinite (CreatedAt k)" and "isFinite (UpdatedAt k)"
    and "CreatedAt fresh = Finite 0" and "UpdatedAt fresh = Finite 0"
  shows "\<exists>data. Marshal_KeyRing k = Inr data \<and>
           snd (Unmarshal_KeyRing data fresh) = None \<and>
           CreatedAt (fst (Unmarshal_KeyRing data fresh)) = CreatedAt k \<and>
           UpdatedAt (fst (Unmarshal_KeyRing data fresh)) = UpdatedAt k \<and>
           Identifier (fst (Unmarshal_KeyRing data fresh)) = Identifier fresh \<and>
           axleAddress (fst (Unmarshal_KeyRing data fresh)) = axleAddress fresh \<and>
           createOnSave (fst (Unmarshal_KeyRing data fresh)) = createOnSave fresh"
proof -
  from assms(1) obtain c where c: "CreatedAt k = Finite c" by (cases "CreatedAt k") auto
  from assms(2) obtain u where u: "UpdatedAt k = Finite u" by (cases "UpdatedAt k") auto
  let ?data = "Doc (JObject ((if c = 0 then [] else [(''createdAt'', JNumber c)]) @
                             (if u = 0 then [] else [(''updatedAt'', JNumber u)])))"
  have m: "Marshal_KeyRing k = Inr ?data"
    by (simp add: Marshal_KeyRing_def c u)
  have d: "snd (Unmarshal_KeyRing ?data fresh) = None \<and>
           CreatedAt (fst (Unmarshal_KeyRing ?data fresh)) = CreatedAt k \<and>
           UpdatedAt (fst (Unmarshal_KeyRing ?data fresh)) = UpdatedAt k"
    using assms(3,4) by (simp add: c u decode_createdAt decode_updatedAt)
  from m d show ?thesis
    by (auto simp: Unmarshal_KeyRing_frame simp del: Unmarshal_KeyRing.simps)
qed

text \<open>The amended C9 at a \<^verbatim>\<open>KeyRing\<close> named \<^verbatim>\<open>x\<close> with the timestamps 1 and 2.\<close>

theorem timestamps_roundtrip_witness:
  "Marshal_KeyRing ((NewKeyRing ''http://localhost/'' ''x'')\<lparr>CreatedAt := Finite 1, UpdatedAt := Finite 2\<rparr>)
     = Inr (Doc (JObject [(''createdAt'', JNumber 1), (''updatedAt'', JNumber 2)])) \<and>
   Unmarshal_KeyRing (Doc (JObject [(''createdAt'', JNumber 1), (''updatedAt'', JNumber 2)])) zeroKeyRing
     = (\<lparr>Identifier = [], CreatedAt = Finite 1, UpdatedAt = Finite 2, axleAddress = [],
         createOnSave = False\<rparr>, None)"
proof -
  let ?k = "(NewKeyRing ''http://localhost/'' ''x'')\<lparr>CreatedAt := Finite 1, UpdatedAt := Finite 2\<rparr>"
  have h: "isFinite (CreatedAt ?k)" "isFinite (UpdatedAt ?k)"
    "CreatedAt zeroKeyRing = Finite 0" "UpdatedAt zeroKeyRing = Finite 0"
    by (simp_all add: zeroKeyRing_def)
  have m: "Marshal_KeyRing ?k =
      Inr (Doc (JObject [(''createdAt'', JNumber 1), (''updatedAt'', JNumber 2)]))"
    by (simp add: Marshal_KeyRing_def)
  from timestamps_roundtrip [OF h] m
  have r: "snd (Unmarshal_KeyRing (Doc (JObject [(''createdAt'', JNumber 1), (''updatedAt'', JNumber 2)]))
             zeroKeyRing) = None \<and>
     CreatedAt (fst (Unmarshal_KeyRing (Doc (JObject [(''createdAt'', JNumber 1), (''updatedAt'', JNumber 2)]))
             zeroKeyRing)) = Finite 1 \<and>
     UpdatedAt (fst (Unmarshal_KeyRing (Doc (JObject [(''createdAt'', JNumber 1), (''updatedAt'', JNumber 2)]))
             zeroKeyRing)) = Finite 2 \<and>
     Identifier (fst (Unmarshal_KeyRing (Doc (JObject [(''createdAt'', JNumber 1), (''updatedAt'', JNumber 2)]))
             zeroKeyRing)) = [] \<and>
     axleAddress (fst (Unmarshal_KeyRing (Doc (JObject [(''createdAt'', JNumber 1), (''updatedAt'', JNumber 2)]))
             zeroKeyRing)) = [] \<and>
     createOnSave (fst (Unmarshal_KeyRing (Doc (JObject [(''createdAt'', JNumber 1), (''updatedAt'', JNumber 2)]))
             zeroKeyRing)) = False"
    by (auto simp: zeroKeyRing_def simp del: Unmarshal_KeyRing.simps)
  have "Unmarshal_KeyRing (Doc (JObject [(''createdAt'', JNumber 1), (''updatedAt'', JNumber 2)])) zeroKeyRing
     = (\<lparr>Identifier = [], CreatedAt = Finite 1, UpdatedAt = Finite 2, axleAddress = [],
         createOnSave = False\<rparr>, None)"
    using r by (auto simp: prod_eq_iff KeyRing.equality simp del: Unmarshal_KeyRing.simps)
  with m show ?thesis by (intro conjI)
qed

subsection \<open>C10: what the response cannot change\<close>

text \<open>
  C10: for every response body and every key path, \<^verbatim>\<open>populateKeyRingFromResponse\<close>
  leaves \<^verbatim>\<open>Identifier\<close> and \<^verbatim>\<open>axleAddress\<close> of the target as they are; hence a
  \<^verbatim>\<open>GetKeyRing\<close> that succeeds returns a \<^verbatim>\<open>KeyRing\<close> whose \<^verbatim>\<open>Identifier\<close> is the
  identifier asked for and whose \<^verbatim>\<open>axleAddress\<close> is the address given, whatever the
  body says.
\<close>

theorem populate_keeps_identity:
  "Identifier (fst (populateKeyRingFromResponse k body path)) = Identifier k \<and>
   axleAddress (fst (populateKeyRingFromResponse k body path)) = axleAddress k \<and>
   (\<forall>k'. GetKeyRing t V a i = Inr k' \<longrightarrow> Identifier k' = i \<and> axleAddress k' = a)"
  using populate_frame(1,2) [of k body path] GetKeyRing_result(2,3) [of t V a i]
  by blast

text \<open>
  C10 at a server whose answer names another identifier and another address.
\<close>

theorem populate_keeps_identity_witness:
  "Identifier (fst (populateKeyRingFromResponse (NewKeyRing ''http://localhost/'' ''ring'')
       (Doc (JObject [(''results'', JObject [(''identifier'', JString ''other''),
          (''axleAddress'', JString ''http://elsewhere/''), (''createdAt'', JNumber 1)])]))
       [''results''])) = ''ring'' \<and>
   axleAddress (fst (populateKeyRingFromResponse (NewKeyRing ''http://localhost/'' ''ring'')
       (Doc (JObject [(''results'', JObject [(''identifier'', JString ''other''),
          (''axleAddress'', JString ''http://elsewhere/''), (''createdAt'', JNumber 1)])]))
       [''results''])) = ''http://localhost/'' \<and>
   GetKeyRing (respond (Doc (JObject [(''results'', JObject [(''identifier'', JString ''other''),
       (''axleAddress'', JString ''http://elsewhere/''), (''createdAt'', JNumber 1)])])))
     ''v1/'' ''http://localhost/'' ''ring'' =
     Inr \<lparr>Identifier = ''ring'', CreatedAt = Finite 1, UpdatedAt = Finite 0,
          axleAddress = ''http://localhost/'', createOnSave = False\<rparr> \<and>
   Identifier \<lparr>Identifier = ''ring'', CreatedAt = Finite 1, UpdatedAt = Finite 0,
          axleAddress = ''http://localhost/'', createOnSave = False\<rparr> = ''ring'' \<and>
   axleAddress \<lparr>Identifier = ''ring'', CreatedAt = Finite 1, UpdatedAt = Finite 0,
          axleAddress = ''http://localhost/'', createOnSave = False\<rparr> = ''http://localhost/''"
proof -
  have g: "GetKeyRing (respond (Doc (JObject [(''results'', JObject [(''identifier'', JString ''other''),
       (''axleAddress'', JString ''http://elsewhere/''), (''createdAt'', JNumber 1)])])))
     ''v1/'' ''http://localhost/'' ''ring'' =
     Inr \<lparr>Identifier = ''ring'', CreatedAt = Finite 1, UpdatedAt = Finite 0,
          axleAddress = ''http://localhost/'', createOnSave = False\<rparr>"
    by (simp add: evaluation)
  from populate_keeps_identity
    [of "NewKeyRing ''http://localhost/'' ''ring''"
        "Doc (JObject [(''results'', JObject [(''identifier'', JString ''other''),
          (''axleAddress'', JString ''http://elsewhere/''), (''createdAt'', JNumber 1)])])"
        "[''results'']"
        "respond (Doc (JObject [(''results'', JObject [(''identifier'', JString ''other''),
          (''axleAddress'', JString ''http://elsewhere/''), (''createdAt'', JNumber 1)])]))"
        "''v1/''" "''http://localhost/''" "''ring''"] g
  show ?thesis by (simp add: NewKeyRing_fields)
qed

end
